theory Spec2Isabelle
  imports Main "HOL-Library.Multiset"
begin

section \<open>Strings and characters\<close>

text \<open>
  JavaScript strings are modelled as lists of 8-bit characters (code units 0..255).
  The character classes are those of the regular expressions in
  \<^verbatim>\<open>src/services/keywordScanner.ts\<close>: \<^verbatim>\<open>\w\<close> is \<^verbatim>\<open>[A-Za-z0-9_]\<close> and
  \<^verbatim>\<open>\s\<close> is, within this range, TAB, LF, VT, FF, CR, SPACE and NBSP (the same
  characters \<^verbatim>\<open>String.prototype.trim\<close> strips).
\<close>

definition isWordChar :: "char \<Rightarrow> bool" where
  "isWordChar c =
     (let n = (of_char c :: nat) in
        (48 \<le> n \<and> n \<le> 57) \<or> (65 \<le> n \<and> n \<le> 90) \<or> n = 95 \<or> (97 \<le> n \<and> n \<le> 122))"

definition isSpaceChar :: "char \<Rightarrow> bool" where
  "isSpaceChar c =
     (let n = (of_char c :: nat) in (9 \<le> n \<and> n \<le> 13) \<or> n = 32 \<or> n = 160)"

text \<open>\<^verbatim>\<open>toLowerCase\<close> on the 8-bit range: \<^verbatim>\<open>A-Z\<close> and the Latin-1 capitals.\<close>

definition toLowerCaseChar :: "char \<Rightarrow> char" where
  "toLowerCaseChar c =
     (let n = (of_char c :: nat) in
        if (65 \<le> n \<and> n \<le> 90) \<or> (192 \<le> n \<and> n \<le> 222 \<and> n \<noteq> 215)
        then char_of (n + 32) else c)"

definition toLowerCase :: "string \<Rightarrow> string" where
  "toLowerCase text = map toLowerCaseChar text"

text \<open>\<^verbatim>\<open>.replace(/[^\w\s]/g, ' ')\<close>\<close>

definition replacePunctuation :: "string \<Rightarrow> string" where
  "replacePunctuation text =
     map (\<lambda>c. if \<not> isWordChar c \<and> \<not> isSpaceChar c then CHR '' '' else c) text"

text \<open>\<^verbatim>\<open>.replace(/\s+/g, ' ')\<close>: every maximal run of whitespace becomes one space.\<close>

function collapseSpaces :: "string \<Rightarrow> string" where
  "collapseSpaces [] = []"
| "collapseSpaces (c # cs) =
     (if isSpaceChar c then CHR '' '' # collapseSpaces (dropWhile isSpaceChar cs)
      else c # collapseSpaces cs)"
  by pat_completeness auto
termination
  by (relation "measure length") (auto simp: less_Suc_eq_le length_dropWhile_le)

text \<open>\<^verbatim>\<open>.trim()\<close>\<close>

definition trim :: "string \<Rightarrow> string" where
  "trim text = rev (dropWhile isSpaceChar (rev (dropWhile isSpaceChar text)))"

definition normalizeText :: "string \<Rightarrow> string" where
  "normalizeText text = trim (collapseSpaces (replacePunctuation (toLowerCase text)))"

section \<open>Regular expressions\<close>

text \<open>
  The scanner builds a \<^verbatim>\<open>RegExp\<close> from every rule. The fragment of the pattern
  language that is modelled exactly is: ASCII characters that are not syntax
  characters (they match themselves, case-insensitively under the \<^verbatim>\<open>i\<close> flag),
  the assertion \<^verbatim>\<open>\b\<close> and the alternation \<^verbatim>\<open>|\<close>. Every other pattern is handed
  to a parameter \<open>engine\<close>, which either throws (\<open>Inl\<close>) or returns the index of
  the first match, if any.
\<close>

datatype atom = Chr char | WordBoundary

datatype jsError =
    SyntaxError | DbError nat | ProviderError | AppError string nat string | CastError string

type_synonym engine = "string \<Rightarrow> string \<Rightarrow> jsError + nat option"

definition backslash :: char where
  "backslash = CHR 0x5C"

definition syntaxChars :: "char list" where
  "syntaxChars = backslash # ''^$.*+?()[]{}|''"

fun splitAlternatives :: "string \<Rightarrow> string list" where
  "splitAlternatives [] = [[]]"
| "splitAlternatives (c # cs) =
     (if c = CHR ''|'' then [] # splitAlternatives cs
      else (case splitAlternatives cs of
              a # as \<Rightarrow> (c # a) # as
            | [] \<Rightarrow> [[c]]))"

fun parseAlternative :: "string \<Rightarrow> atom list option" where
  "parseAlternative [] = Some []"
| "parseAlternative [c] =
     (if c \<in> set syntaxChars \<or> 128 \<le> (of_char c :: nat) then None else Some [Chr c])"
| "parseAlternative (c # d # ds) =
     (if c = backslash then
        (if d = CHR ''b'' then map_option ((#) WordBoundary) (parseAlternative ds) else None)
      else if c \<in> set syntaxChars \<or> 128 \<le> (of_char c :: nat) then None
      else map_option ((#) (Chr c)) (parseAlternative (d # ds)))"

definition parsePattern :: "string \<Rightarrow> atom list list option" where
  "parsePattern pattern = those (map parseAlternative (splitAlternatives pattern))"

text \<open>Canonicalisation of the \<^verbatim>\<open>i\<close> flag, for comparison with an ASCII pattern character.\<close>

definition canonicalize :: "char \<Rightarrow> char" where
  "canonicalize c =
     (let n = (of_char c :: nat) in if 97 \<le> n \<and> n \<le> 122 then char_of (n - 32) else c)"

text \<open>\<^verbatim>\<open>\b\<close> holds at \<open>i\<close> when exactly one of the characters before and at \<open>i\<close> is a word character.\<close>

definition isBoundary :: "string \<Rightarrow> nat \<Rightarrow> bool" where
  "isBoundary text i =
     ((0 < i \<and> i \<le> length text \<and> isWordChar (text ! (i - 1)))
        \<noteq> (i < length text \<and> isWordChar (text ! i)))"

fun matchAtoms :: "atom list \<Rightarrow> string \<Rightarrow> nat \<Rightarrow> bool" where
  "matchAtoms [] text i = True"
| "matchAtoms (Chr c # as) text i =
     (i < length text \<and> canonicalize (text ! i) = canonicalize c \<and> matchAtoms as text (i + 1))"
| "matchAtoms (WordBoundary # as) text i = (isBoundary text i \<and> matchAtoms as text i)"

text \<open>\<^verbatim>\<open>regex.exec(text)\<close> on a fresh expression: the leftmost index at which some alternative matches.\<close>

definition execAlternatives :: "atom list list \<Rightarrow> string \<Rightarrow> nat option" where
  "execAlternatives alts text =
     find (\<lambda>i. list_ex (\<lambda>alt. matchAtoms alt text i) alts) [0 ..< length text + 1]"

definition regexpExec :: "engine \<Rightarrow> string \<Rightarrow> string \<Rightarrow> jsError + nat option" where
  "regexpExec engine pattern text =
     (case parsePattern pattern of
        Some alts \<Rightarrow> Inr (execAlternatives alts text)
      | None \<Rightarrow> engine pattern text)"

section \<open>Keyword scanner\<close>

datatype KeywordSeverity = NONE | LOW | MEDIUM | HIGH

datatype KeywordAction = FLAG | HIDE | ESCALATE | NOTIFY

record ModerationKeyword =
  kw_word :: string
  kw_severity :: KeywordSeverity
  kw_action :: KeywordAction
  kw_isRegex :: bool
  kw_enabled :: bool

record KeywordMatch =
  m_word :: string
  m_severity :: KeywordSeverity
  m_action :: KeywordAction
  m_position :: nat

record ScanResult =
  severity :: KeywordSeverity
  matches :: "KeywordMatch list"
  severityScore :: nat

text \<open>
  The state of \<^verbatim>\<open>KeywordScannerService\<close> (the cache and its time stamp) together with
  the keyword collection it reads. \<open>keywordFinds\<close> counts the
  \<^verbatim>\<open>ModerationKeyword.find\<close> queries issued, so that a load served from the cache can
  be told from one that read the store.
\<close>

record scanner =
  cache :: "ModerationKeyword list"
  lastCacheUpdate :: "int option"
  keywordCollection :: "ModerationKeyword list"
  keywordFinds :: nat

text \<open>What a scan reads from outside: the clock, whether the keyword query fails, the expression engine.\<close>

record scanEnv =
  now :: int
  keywordFindFails :: bool
  regexEngine :: engine

definition cacheTTL :: int where
  "cacheTTL = 5 * 60 * 1000"

definition loadKeywords :: "scanEnv \<Rightarrow> bool \<Rightarrow> scanner \<Rightarrow> ModerationKeyword list \<times> scanner" where
  "loadKeywords env force s =
     (if \<not> force \<and> 0 < length (cache s) \<and>
         (case lastCacheUpdate s of
            None \<Rightarrow> False
          | Some t \<Rightarrow> now env - t < cacheTTL)
      then (cache s, s)
      else if keywordFindFails env
      then (cache s, s\<lparr>keywordFinds := keywordFinds s + 1\<rparr>)
      else (let keywords = filter kw_enabled (keywordCollection s)
            in (keywords, s\<lparr>cache := keywords, lastCacheUpdate := Some (now env),
                             keywordFinds := keywordFinds s + 1\<rparr>)))"

fun getSeverityScore :: "KeywordSeverity \<Rightarrow> nat" where
  "getSeverityScore NONE = 0"
| "getSeverityScore LOW = 1"
| "getSeverityScore MEDIUM = 2"
| "getSeverityScore HIGH = 3"

definition matchKeyword :: "engine \<Rightarrow> ModerationKeyword \<Rightarrow> string \<Rightarrow> jsError + nat option" where
  "matchKeyword engine keyword normalizedText =
     (if kw_isRegex keyword then regexpExec engine (kw_word keyword) normalizedText
      else regexpExec engine (backslash # CHR ''b'' # kw_word keyword @ [backslash, CHR ''b''])
             normalizedText)"

definition toMatch :: "ModerationKeyword \<Rightarrow> nat \<Rightarrow> KeywordMatch" where
  "toMatch keyword p =
     \<lparr>m_word = kw_word keyword, m_severity = kw_severity keyword,
      m_action = kw_action keyword, m_position = p\<rparr>"

text \<open>The \<^verbatim>\<open>for\<close> loop of \<^verbatim>\<open>scanText\<close>; a rule whose evaluation throws is skipped.\<close>

fun scanLoop ::
  "engine \<Rightarrow> string \<Rightarrow> ModerationKeyword list \<Rightarrow>
     KeywordMatch list \<times> KeywordSeverity \<times> nat \<Rightarrow> KeywordMatch list \<times> KeywordSeverity \<times> nat" where
  "scanLoop engine text [] acc = acc"
| "scanLoop engine text (keyword # keywords) (ms, highestSeverity, highestScore) =
     (case matchKeyword engine keyword text of
        Inl err \<Rightarrow> scanLoop engine text keywords (ms, highestSeverity, highestScore)
      | Inr None \<Rightarrow> scanLoop engine text keywords (ms, highestSeverity, highestScore)
      | Inr (Some p) \<Rightarrow>
          (let score = getSeverityScore (kw_severity keyword)
           in if score > highestScore
              then scanLoop engine text keywords (ms @ [toMatch keyword p], kw_severity keyword, score)
              else scanLoop engine text keywords (ms @ [toMatch keyword p], highestSeverity, highestScore)))"

definition scanText :: "scanEnv \<Rightarrow> string \<Rightarrow> scanner \<Rightarrow> ScanResult \<times> scanner" where
  "scanText env text s =
     (if text = [] \<or> length (trim text) = 0
      then (\<lparr>severity = NONE, matches = [], severityScore = 0\<rparr>, s)
      else (case loadKeywords env False s of
              (keywords, s') \<Rightarrow>
                (case scanLoop (regexEngine env) (normalizeText text) keywords ([], NONE, 0) of
                   (ms, highestSeverity, highestScore) \<Rightarrow>
                     (\<lparr>severity = highestSeverity, matches = sort_key m_position ms,
                       severityScore = highestScore\<rparr>, s'))))"

definition reloadKeywords :: "scanEnv \<Rightarrow> scanner \<Rightarrow> scanner" where
  "reloadKeywords env s = snd (loadKeywords env True s)"

definition clearCache :: "scanner \<Rightarrow> scanner" where
  "clearCache s = s\<lparr>cache := [], lastCacheUpdate := None\<rparr>"

section \<open>Stored documents and the world\<close>

text \<open>
  The collections the controllers read and write
  (\<^verbatim>\<open>ProcessedMessage\<close>, \<^verbatim>\<open>ModerationQueue\<close>, \<^verbatim>\<open>Report\<close>, \<^verbatim>\<open>AuditLog\<close>, \<^verbatim>\<open>ChatRoom\<close>,
  \<^verbatim>\<open>MetricsMessagesDaily\<close>, \<^verbatim>\<open>User\<close>) are lists of documents. Calls to the chat
  provider and to the push service act outside the system; the world keeps the list of
  the calls attempted, in order. Logging is not modelled.
\<close>

record ProcessedMessage =
  pm_messageId :: string
  pm_processedAt :: int

record queuePayload =
  p_messageId :: string
  p_userId :: string
  p_channelId :: string
  p_text :: string
  p_matches :: "KeywordMatch list"

record ModerationQueueItem =
  q_id :: string
  q_payload :: queuePayload
  q_reasonTags :: "string list"
  q_severity :: nat
  q_processed :: bool
  q_processedAt :: "int option"

datatype ReportTargetType = MESSAGE | USER | CHANNEL | RESOURCE

datatype ReportStatus = OPEN | UNDER_REVIEW | RESOLVED

record Report =
  r_id :: string
  r_targetType :: ReportTargetType
  r_targetId :: string
  r_reason :: string
  r_status :: ReportStatus
  r_moderatorId :: "string option"
  r_moderatorComment :: "string option"
  r_resolvedAt :: "int option"

text \<open>
  A ban expiry is the date of the request moved by \<^verbatim>\<open>setHours\<close> or \<^verbatim>\<open>setFullYear\<close>;
  the calendar arithmetic is left symbolic.
\<close>

datatype banExpiry = HoursAfter int int | YearsAfter int nat

record User =
  u_id :: string
  u_bannedUntil :: "banExpiry option"

record ChatRoom =
  c_streamChannelId :: string
  c_flaggedCount :: nat
  c_lastMessageAt :: "int option"

record actionDetails =
  d_action :: string
  d_comment :: "string option"
  d_messageDeleted :: "bool option"
  d_streamBanned :: "bool option"
  d_bannedUntil :: "banExpiry option"
  d_channelSuspended :: "bool option"

datatype auditMeta =
    MessageMeta string string string "KeywordMatch list" bool
  | ResolvedMeta string string actionDetails
  | QueueMeta nat "string list"

record AuditLog =
  a_action :: string
  a_actorUserId :: "string option"
  a_target :: string
  a_timestamp :: int
  a_meta :: auditMeta

datatype providerCall =
    DeleteMessage string bool
  | FlagMessage string string string
  | BanUser string "int option" string string
  | NotifyModerators string string string string
  | SendCrisisResources string

record world =
  scannerState :: scanner
  processedMessages :: "ProcessedMessage list"
  moderationQueue :: "ModerationQueueItem list"
  reports :: "Report list"
  auditLog :: "AuditLog list"
  chatRooms :: "ChatRoom list"
  metricsMessagesDaily :: "(string \<times> nat) list"
  users :: "User list"
  calls :: "providerCall list"

text \<open>
  What one request meets outside the code: the scan environment, the calendar day, the
  identifiers storage gives to created documents, the result of the provider's
  signature check, and which storage operations and outbound calls throw.
  \<open>processedCreateError\<close> is the code of an error thrown by the insert of
  \<^verbatim>\<open>markProcessed\<close> for a reason of its own (11000 when another instance inserted the
  same id first).
\<close>

datatype operation =
    ProcessedFind | QueueCreate | ReportCreate | DeleteMessageCall | NotifyModeratorsCall
  | SendCrisisCall | FlagMessageCall | RoomFlaggedInc | AuditCreate | RoomTouch | MetricsUpsert
  | ReportFind | UserFind | UserSave | BanUserCall | RoomFind | RoomSave | ReportSave
  | QueueFind | QueueSave | ProcessedDeleteMany

record env =
  scanning :: scanEnv
  today :: string
  newQueueId :: string
  newReportId :: string
  signatureValid :: bool
  processedCreateError :: "nat option"
  fails :: "operation \<Rightarrow> bool"

type_synonym 'a io = "world \<Rightarrow> (jsError + 'a) \<times> world"

definition bindIO :: "'a io \<Rightarrow> ('a \<Rightarrow> 'b io) \<Rightarrow> 'b io" where
  "bindIO m f w = (case m w of (Inl err, w') \<Rightarrow> (Inl err, w') | (Inr x, w') \<Rightarrow> f x w')"

definition returnIO :: "'a \<Rightarrow> 'a io" where
  "returnIO x w = (Inr x, w)"

definition throwIO :: "jsError \<Rightarrow> 'a io" where
  "throwIO err w = (Inl err, w)"

text \<open>\<^verbatim>\<open>try { ... } catch (error) { logger.error(...) }\<close>\<close>

definition tryCatchLog :: "unit io \<Rightarrow> unit io" where
  "tryCatchLog m w = (case m w of (r, w') \<Rightarrow> (Inr (), w'))"

fun runAll :: "unit io list \<Rightarrow> unit io" where
  "runAll [] = returnIO ()"
| "runAll (m # ms) = bindIO m (\<lambda>u. runAll ms)"

text \<open>A storage write: it throws and changes nothing, or it applies the change.\<close>

definition dbWrite :: "env \<Rightarrow> operation \<Rightarrow> (world \<Rightarrow> world) \<Rightarrow> unit io" where
  "dbWrite e opn change w =
     (if fails e opn then (Inl (DbError 0), w) else (Inr (), change w))"

text \<open>An outbound call: the attempt is recorded; it throws or returns.\<close>

definition outbound :: "env \<Rightarrow> operation \<Rightarrow> providerCall \<Rightarrow> unit io" where
  "outbound e opn call w =
     (if fails e opn then (Inl ProviderError, w\<lparr>calls := calls w @ [call]\<rparr>)
      else (Inr (), w\<lparr>calls := calls w @ [call]\<rparr>))"

fun updateOne :: "('a \<Rightarrow> bool) \<Rightarrow> ('a \<Rightarrow> 'a) \<Rightarrow> 'a list \<Rightarrow> 'a list" where
  "updateOne P f [] = []"
| "updateOne P f (x # xs) = (if P x then f x # xs else x # updateOne P f xs)"

fun join :: "string \<Rightarrow> string list \<Rightarrow> string" where
  "join sep [] = []"
| "join sep [x] = x"
| "join sep (x # y # ys) = x @ sep @ join sep (y # ys)"

section \<open>Idempotency service\<close>

definition isProcessed :: "env \<Rightarrow> string \<Rightarrow> world \<Rightarrow> bool" where
  "isProcessed e messageId w =
     (if fails e ProcessedFind then False
      else find (\<lambda>r. pm_messageId r = messageId) (processedMessages w) \<noteq> None)"

text \<open>
  \<^verbatim>\<open>ProcessedMessage.create\<close>: the collection has a unique index on \<^verbatim>\<open>messageId\<close>,
  so inserting an id that is present throws the duplicate-key error, code 11000.
\<close>

definition ProcessedMessage_create :: "env \<Rightarrow> string \<Rightarrow> unit io" where
  "ProcessedMessage_create e messageId w =
     (case processedCreateError e of
        Some code \<Rightarrow> (Inl (DbError code), w)
      | None \<Rightarrow>
          if find (\<lambda>r. pm_messageId r = messageId) (processedMessages w) \<noteq> None
          then (Inl (DbError 11000), w)
          else (Inr (), w\<lparr>processedMessages := processedMessages w @
                  [\<lparr>pm_messageId = messageId, pm_processedAt = now (scanning e)\<rparr>]\<rparr>))"

text \<open>The \<^verbatim>\<open>catch\<close> of \<^verbatim>\<open>markProcessed\<close> logs every error but the duplicate-key one, and rethrows none.\<close>

definition markProcessed :: "env \<Rightarrow> string \<Rightarrow> unit io" where
  "markProcessed e messageId w =
     (case ProcessedMessage_create e messageId w of
        (Inr u, w') \<Rightarrow> (Inr (), w')
      | (Inl err, w') \<Rightarrow> (if err \<noteq> DbError 11000 then (Inr (), w') else (Inr (), w')))"




section \<open>Webhook controller\<close>

record message =
  msg_id :: string
  msg_text :: string
  msg_userId :: string
  msg_cid :: string

record StreamWebhookEvent =
  ev_type :: string
  ev_message :: "message option"

record request =
  signature :: "string option"
  body :: StreamWebhookEvent

record response =
  status :: nat
  success :: bool

definition ModerationQueue_create ::
  "env \<Rightarrow> string \<Rightarrow> string \<Rightarrow> string \<Rightarrow> ScanResult \<Rightarrow> string \<Rightarrow> nat \<Rightarrow> unit io" where
  "ModerationQueue_create e messageId userId channelId scanResult text sev =
     dbWrite e QueueCreate (\<lambda>w. w\<lparr>moderationQueue := moderationQueue w @
       [\<lparr>q_id = newQueueId e,
         q_payload = \<lparr>p_messageId = messageId, p_userId = userId, p_channelId = channelId,
                      p_text = text, p_matches = matches scanResult\<rparr>,
         q_reasonTags = map (\<lambda>m. trim (m_word m)) (matches scanResult),
         q_severity = sev, q_processed = False, q_processedAt = None\<rparr>]\<rparr>)"

definition ChatRoom_incFlagged :: "env \<Rightarrow> string \<Rightarrow> unit io" where
  "ChatRoom_incFlagged e channelId =
     dbWrite e RoomFlaggedInc (\<lambda>w. w\<lparr>chatRooms :=
       updateOne (\<lambda>c. c_streamChannelId c = channelId)
         (\<lambda>c. c\<lparr>c_flaggedCount := c_flaggedCount c + 1\<rparr>) (chatRooms w)\<rparr>)"

definition AuditLog_create :: "env \<Rightarrow> AuditLog \<Rightarrow> unit io" where
  "AuditLog_create e entry = dbWrite e AuditCreate (\<lambda>w. w\<lparr>auditLog := auditLog w @ [entry]\<rparr>)"

definition handleHighSeverity ::
  "env \<Rightarrow> string \<Rightarrow> string \<Rightarrow> string \<Rightarrow> ScanResult \<Rightarrow> string \<Rightarrow> unit io" where
  "handleHighSeverity e messageId userId channelId scanResult text =
     runAll
       [ModerationQueue_create e messageId userId channelId scanResult text 3,
        dbWrite e ReportCreate (\<lambda>w. w\<lparr>reports := reports w @
          [\<lparr>r_id = newReportId e, r_targetType = MESSAGE, r_targetId = messageId,
            r_reason = trim (''Automatic: High severity keywords detected - '' @
                         join '', '' (map m_word (matches scanResult))),
            r_status = UNDER_REVIEW, r_moderatorId = None, r_moderatorComment = None,
            r_resolvedAt = None\<rparr>]\<rparr>),
        tryCatchLog (outbound e DeleteMessageCall (DeleteMessage messageId True)),
        tryCatchLog (outbound e NotifyModeratorsCall
                       (NotifyModerators messageId userId channelId ''high'')),
        tryCatchLog (outbound e SendCrisisCall (SendCrisisResources userId)),
        ChatRoom_incFlagged e channelId,
        AuditLog_create e
          \<lparr>a_action = ''message_moderated_high'', a_actorUserId = None, a_target = messageId,
           a_timestamp = now (scanning e),
           a_meta = MessageMeta userId channelId ''high'' (matches scanResult) True\<rparr>]"

definition handleMediumSeverity ::
  "env \<Rightarrow> string \<Rightarrow> string \<Rightarrow> string \<Rightarrow> ScanResult \<Rightarrow> string \<Rightarrow> unit io" where
  "handleMediumSeverity e messageId userId channelId scanResult text =
     runAll
       [ModerationQueue_create e messageId userId channelId scanResult text 2,
        tryCatchLog (outbound e FlagMessageCall
                       (FlagMessage messageId ''system'' ''Medium severity keywords detected'')),
        ChatRoom_incFlagged e channelId,
        AuditLog_create e
          \<lparr>a_action = ''message_flagged_medium'', a_actorUserId = None, a_target = messageId,
           a_timestamp = now (scanning e),
           a_meta = MessageMeta userId channelId ''medium'' (matches scanResult) True\<rparr>]"

definition handleLowSeverity ::
  "env \<Rightarrow> string \<Rightarrow> string \<Rightarrow> string \<Rightarrow> ScanResult \<Rightarrow> string \<Rightarrow> unit io" where
  "handleLowSeverity e messageId userId channelId scanResult text =
     ModerationQueue_create e messageId userId channelId scanResult text 1"

fun upsertDay :: "string \<Rightarrow> (string \<times> nat) list \<Rightarrow> (string \<times> nat) list" where
  "upsertDay d [] = [(d, 1)]"
| "upsertDay d ((d', n) # rest) = (if d' = d then (d', n + 1) # rest else (d', n) # upsertDay d rest)"

definition updateMetricsAndChatRoom :: "env \<Rightarrow> string \<Rightarrow> unit io" where
  "updateMetricsAndChatRoom e channelId =
     runAll
       [dbWrite e RoomTouch (\<lambda>w. w\<lparr>chatRooms :=
          updateOne (\<lambda>c. c_streamChannelId c = channelId)
            (\<lambda>c. c\<lparr>c_lastMessageAt := Some (now (scanning e))\<rparr>) (chatRooms w)\<rparr>),
        dbWrite e MetricsUpsert (\<lambda>w. w\<lparr>metricsMessagesDaily :=
          upsertDay (today e) (metricsMessagesDaily w)\<rparr>)]"

text \<open>\<^verbatim>\<open>keywordScanner.scanText\<close> run on the scanner held in the world.\<close>

definition scanTextIO :: "env \<Rightarrow> string \<Rightarrow> ScanResult io" where
  "scanTextIO e text w =
     (case scanText (scanning e) text (scannerState w) of
        (scanResult, sc) \<Rightarrow> (Inr scanResult, w\<lparr>scannerState := sc\<rparr>))"

text \<open>
  \<^verbatim>\<open>processMessageCreated\<close> after its idempotency check: everything from
  \<^verbatim>\<open>markProcessed\<close> on. The check and this remainder are separated by an \<^verbatim>\<open>await\<close>,
  so another delivery can run between them.
\<close>

definition processAdmitted :: "env \<Rightarrow> message \<Rightarrow> unit io" where
  "processAdmitted e msg =
     (let messageId = msg_id msg; text = msg_text msg; userId = msg_userId msg;
          channelId = msg_cid msg
      in bindIO (markProcessed e messageId) (\<lambda>u.
         bindIO (scanTextIO e text) (\<lambda>scanResult.
         runAll
           [if severity scanResult = HIGH
              then handleHighSeverity e messageId userId channelId scanResult text
            else if severity scanResult = MEDIUM
              then handleMediumSeverity e messageId userId channelId scanResult text
            else if severity scanResult = LOW
              then handleLowSeverity e messageId userId channelId scanResult text
            else returnIO (),
            updateMetricsAndChatRoom e channelId])))"

definition processMessageCreated :: "env \<Rightarrow> message \<Rightarrow> unit io" where
  "processMessageCreated e msg w =
     (if isProcessed e (msg_id msg) w then (Inr (), w) else processAdmitted e msg w)"

definition isSignatureError :: "jsError \<Rightarrow> bool" where
  "isSignatureError err =
     (case err of
        AppError msg st code \<Rightarrow> code = ''INVALID_SIGNATURE'' \<or> code = ''MISSING_SIGNATURE''
      | _ \<Rightarrow> False)"

definition handleStreamWebhook :: "env \<Rightarrow> request \<Rightarrow> world \<Rightarrow> response \<times> world" where
  "handleStreamWebhook e req w =
     (case
        (if signature req = None \<or> signature req = Some []
         then throwIO (AppError ''Missing webhook signature'' 401 ''MISSING_SIGNATURE'')
         else if \<not> signatureValid e
         then throwIO (AppError ''Invalid webhook signature'' 401 ''INVALID_SIGNATURE'')
         else (case ev_message (body req) of
                 Some msg \<Rightarrow>
                   if ev_type (body req) = ''message.new'' then processMessageCreated e msg
                   else returnIO ()
               | None \<Rightarrow> returnIO ())) w
      of
        (Inr u, w') \<Rightarrow> (\<lparr>status = 200, success = True\<rparr>, w')
      | (Inl err, w') \<Rightarrow>
          if isSignatureError err then (\<lparr>status = 401, success = False\<rparr>, w')
          else (\<lparr>status = 200, success = False\<rparr>, w'))"

section \<open>Moderation controller\<close>

record resolveRequest =
  rq_moderatorId :: string
  rq_reportId :: string
  rq_action :: string
  rq_comment :: "string option"
  rq_banDurationHours :: "int option"

record resolveResponse =
  rs_status :: nat
  rs_reportId :: string
  rs_action :: string
  rs_reportStatus :: ReportStatus
  rs_details :: actionDetails

text \<open>A storage read: it throws, or it returns what the query finds.\<close>

definition dbFind :: "env \<Rightarrow> operation \<Rightarrow> (world \<Rightarrow> 'a option) \<Rightarrow> 'a option io" where
  "dbFind e opn query w = (if fails e opn then (Inl (DbError 0), w) else (Inr (query w), w))"

text \<open>
  \<^verbatim>\<open>Model.findById(id)\<close>: the documents of \<^verbatim>\<open>User\<close>, \<^verbatim>\<open>Report\<close> and
  \<^verbatim>\<open>ModerationQueue\<close> are identified by an ObjectId, so the argument is first cast to
  one. A string that is not 24 hexadecimal digits cannot be cast: the call throws a
  \<^verbatim>\<open>CastError\<close> before storage is asked. Identifiers of moderators come from the
  authentication middleware as \<^verbatim>\<open>String(user._id)\<close>.
\<close>

definition isHexDigit :: "char \<Rightarrow> bool" where
  "isHexDigit c =
     (let n = (of_char c :: nat) in
        (48 \<le> n \<and> n \<le> 57) \<or> (65 \<le> n \<and> n \<le> 70) \<or> (97 \<le> n \<and> n \<le> 102))"

definition isObjectId :: "string \<Rightarrow> bool" where
  "isObjectId ident = (length ident = 24 \<and> list_all isHexDigit ident)"

definition findById ::
  "env \<Rightarrow> operation \<Rightarrow> ('a \<Rightarrow> string) \<Rightarrow> (world \<Rightarrow> 'a list) \<Rightarrow> string \<Rightarrow> 'a option io" where
  "findById e opn ident collection i w =
     (if \<not> isObjectId i then (Inl (CastError i), w)
      else dbFind e opn (\<lambda>w. find (\<lambda>d. ident d = i) (collection w)) w)"

text \<open>
  \<^verbatim>\<open>document.save()\<close>: the stored document with the same identifier is replaced.
  A save that the schema rejects (a comment over its maximal length) is one of the
  failures of the write.
\<close>

definition saveById :: "('a \<Rightarrow> string) \<Rightarrow> 'a \<Rightarrow> 'a list \<Rightarrow> 'a list" where
  "saveById ident doc docs = map (\<lambda>d. if ident d = ident doc then doc else d) docs"

definition truthy :: "int option \<Rightarrow> bool" where
  "truthy n = (case n of None \<Rightarrow> False | Some h \<Rightarrow> h \<noteq> 0)"

text \<open>The \<^verbatim>\<open>REMOVE\<close> case of the \<^verbatim>\<open>switch\<close>.\<close>

definition removeAction :: "env \<Rightarrow> Report \<Rightarrow> actionDetails \<Rightarrow> actionDetails io" where
  "removeAction e report details w =
     (if r_targetType report = MESSAGE
      then (case outbound e DeleteMessageCall (DeleteMessage (r_targetId report) True) w of
              (Inr u, w') \<Rightarrow> (Inr (details\<lparr>d_messageDeleted := Some True\<rparr>), w')
            | (Inl err, w') \<Rightarrow> (Inr (details\<lparr>d_messageDeleted := Some False\<rparr>), w'))
      else (Inr details, w))"

text \<open>
  The \<^verbatim>\<open>BAN_USER\<close> case. For a report on a message the user is looked up under the
  report's \<^verbatim>\<open>targetId\<close>; the source only logs that an author lookup is needed.
\<close>

definition banUserAction :: "env \<Rightarrow> resolveRequest \<Rightarrow> Report \<Rightarrow> actionDetails \<Rightarrow> actionDetails io" where
  "banUserAction e req report details =
     (if r_targetType report = MESSAGE \<or> r_targetType report = USER
      then (let targetUserId = r_targetId report
            in bindIO (findById e UserFind u_id users targetUserId)
                 (\<lambda>found. case found of
                    None \<Rightarrow> returnIO details
                  | Some user \<Rightarrow>
                      (let bannedUntil =
                             (if truthy (rq_banDurationHours req)
                              then HoursAfter (now (scanning e)) (the (rq_banDurationHours req))
                              else YearsAfter (now (scanning e)) 10)
                       in bindIO
                            (dbWrite e UserSave (\<lambda>w. w\<lparr>users :=
                               saveById u_id (user\<lparr>u_bannedUntil := Some bannedUntil\<rparr>) (users w)\<rparr>))
                            (\<lambda>u w.
                               case outbound e BanUserCall
                                      (BanUser targetUserId
                                         (if truthy (rq_banDurationHours req)
                                          then Some (the (rq_banDurationHours req) * 60) else None)
                                         (case rq_comment req of
                                            None \<Rightarrow> ''Moderation action''
                                          | Some c \<Rightarrow> if c = [] then ''Moderation action'' else c)
                                         (rq_moderatorId req)) w
                               of
                                 (Inr u', w') \<Rightarrow>
                                   (Inr (details\<lparr>d_streamBanned := Some True,
                                                 d_bannedUntil := Some bannedUntil\<rparr>), w')
                               | (Inl err, w') \<Rightarrow>
                                   (Inr (details\<lparr>d_streamBanned := Some False,
                                                 d_bannedUntil := Some bannedUntil\<rparr>), w')))))
      else returnIO details)"

text \<open>The \<^verbatim>\<open>SUSPEND_CHANNEL\<close> case.\<close>

definition suspendChannelAction :: "env \<Rightarrow> Report \<Rightarrow> actionDetails \<Rightarrow> actionDetails io" where
  "suspendChannelAction e report details =
     (if r_targetType report = CHANNEL
      then bindIO (dbFind e RoomFind
                     (\<lambda>w. find (\<lambda>c. c_streamChannelId c = r_targetId report) (chatRooms w)))
             (\<lambda>found. case found of
                None \<Rightarrow> returnIO details
              | Some chatRoom \<Rightarrow>
                  bindIO
                    (dbWrite e RoomSave (\<lambda>w. w\<lparr>chatRooms :=
                       saveById c_streamChannelId
                         (chatRoom\<lparr>c_flaggedCount := c_flaggedCount chatRoom + 100\<rparr>) (chatRooms w)\<rparr>))
                    (\<lambda>u. returnIO (details\<lparr>d_channelSuspended := Some True\<rparr>)))
      else returnIO details)"

definition executeAction :: "env \<Rightarrow> resolveRequest \<Rightarrow> Report \<Rightarrow> actionDetails \<Rightarrow> actionDetails io" where
  "executeAction e req report details =
     (if rq_action req = ''dismiss'' then returnIO details
      else if rq_action req = ''remove'' then removeAction e report details
      else if rq_action req = ''banUser'' then banUserAction e req report details
      else if rq_action req = ''suspendChannel'' then suspendChannelAction e report details
      else throwIO (AppError ''Invalid moderation action'' 400 ''INVALID_ACTION''))"

definition resolveModerationAction :: "env \<Rightarrow> resolveRequest \<Rightarrow> resolveResponse io" where
  "resolveModerationAction e req =
     bindIO (findById e ReportFind r_id reports (rq_reportId req))
       (\<lambda>found. case found of
          None \<Rightarrow> throwIO (AppError ''Report not found'' 404 ''REPORT_NOT_FOUND'')
        | Some report \<Rightarrow>
            if r_status report = RESOLVED
            then throwIO (AppError ''Report already resolved'' 400 ''ALREADY_RESOLVED'')
            else bindIO
                   (executeAction e req report
                      \<lparr>d_action = rq_action req, d_comment = rq_comment req,
                       d_messageDeleted = None, d_streamBanned = None, d_bannedUntil = None,
                       d_channelSuspended = None\<rparr>)
                   (\<lambda>details.
                      (let resolved = report\<lparr>r_status := RESOLVED,
                                             r_moderatorId := Some (rq_moderatorId req),
                                             r_moderatorComment := map_option trim (rq_comment req),
                                             r_resolvedAt := Some (now (scanning e))\<rparr>
                       in bindIO (dbWrite e ReportSave
                                    (\<lambda>w. w\<lparr>reports := saveById r_id resolved (reports w)\<rparr>))
                            (\<lambda>u. bindIO
                                    (AuditLog_create e
                                       \<lparr>a_action = ''moderation_resolved'',
                                        a_actorUserId = Some (rq_moderatorId req),
                                        a_target =
                                          (case r_targetType report of
                                             MESSAGE \<Rightarrow> ''message'' | USER \<Rightarrow> ''user''
                                           | CHANNEL \<Rightarrow> ''channel'' | RESOURCE \<Rightarrow> ''resource'')
                                          @ '':'' @ r_targetId report,
                                        a_timestamp = now (scanning e),
                                        a_meta = ResolvedMeta (r_id report) (rq_action req) details\<rparr>)
                                    (\<lambda>u'. returnIO
                                       \<lparr>rs_status = 200, rs_reportId = r_id report,
                                        rs_action = rq_action req, rs_reportStatus = RESOLVED,
                                        rs_details = details\<rparr>)))))"

definition processQueueItem :: "env \<Rightarrow> string \<Rightarrow> string \<Rightarrow> unit io" where
  "processQueueItem e ident moderatorId =
     bindIO (findById e QueueFind q_id moderationQueue ident)
       (\<lambda>found. case found of
          None \<Rightarrow> throwIO (AppError ''Queue item not found'' 404 ''QUEUE_ITEM_NOT_FOUND'')
        | Some queueItem \<Rightarrow>
            if q_processed queueItem
            then throwIO (AppError ''Queue item already processed'' 400 ''ALREADY_PROCESSED'')
            else (let processedItem = queueItem\<lparr>q_processed := True,
                                                 q_processedAt := Some (now (scanning e))\<rparr>
                  in bindIO (dbWrite e QueueSave
                               (\<lambda>w. w\<lparr>moderationQueue := saveById q_id processedItem (moderationQueue w)\<rparr>))
                       (\<lambda>u. AuditLog_create e
                               \<lparr>a_action = ''queue_item_processed'',
                                a_actorUserId = Some moderatorId,
                                a_target = q_id queueItem,
                                a_timestamp = now (scanning e),
                                a_meta = QueueMeta (q_severity queueItem) (q_reasonTags queueItem)\<rparr>)))"

section \<open>Auxiliary definitions for the properties\<close>

text \<open>
  The operation \<open>upper\<close> of the case-insensitivity property is the language's
  \<^verbatim>\<open>toUpperCase\<close>, on the 8-bit range: \<^verbatim>\<open>a-z\<close> and the Latin-1 small letters go to
  their capitals, and the sharp s (code 223) becomes \<^verbatim>\<open>SS\<close>. The capitals of the micro
  sign (181) and of y with diaeresis (255) lie outside the range; like these two
  characters themselves they are neither word nor space characters, and the two are
  left in place.
\<close>

definition toUpperCaseChar :: "char \<Rightarrow> string" where
  "toUpperCaseChar c =
     (let n = (of_char c :: nat) in
        if n = 223 then ''SS''
        else if (97 \<le> n \<and> n \<le> 122) \<or> (224 \<le> n \<and> n \<le> 254 \<and> n \<noteq> 247)
        then [char_of (n - 32)] else [c])"

definition toUpperCase :: "string \<Rightarrow> string" where
  "toUpperCase text = concat (map toUpperCaseChar text)"

definition sharpS :: char where
  "sharpS = CHR 0xDF"

text \<open>A term without expression syntax: ASCII characters other than \<^verbatim>\<open>^$\.*+?()[]{}|\<close>.\<close>

definition plainTerm :: "string \<Rightarrow> bool" where
  "plainTerm w = list_all (\<lambda>c. c \<notin> set syntaxChars \<and> (of_char c :: nat) < 128) w"




text \<open>Concrete inputs on which the properties are exercised.\<close>

definition noEngine :: engine where
  "noEngine pattern text = Inr None"

definition literalRule :: "string \<Rightarrow> KeywordSeverity \<Rightarrow> KeywordAction \<Rightarrow> ModerationKeyword" where
  "literalRule w sev act =
     \<lparr>kw_word = w, kw_severity = sev, kw_action = act, kw_isRegex = False, kw_enabled = True\<rparr>"

definition scannerWith :: "ModerationKeyword list \<Rightarrow> scanner" where
  "scannerWith rules =
     \<lparr>cache = [], lastCacheUpdate = None, keywordCollection = rules, keywordFinds = 0\<rparr>"

definition scanEnvAt :: "int \<Rightarrow> scanEnv" where
  "scanEnvAt t = \<lparr>now = t, keywordFindFails = False, regexEngine = noEngine\<rparr>"

definition freshEmptyCache :: scanner where
  "freshEmptyCache =
     \<lparr>cache = [], lastCacheUpdate = Some 0,
      keywordCollection = [literalRule ''suicide'' HIGH ESCALATE], keywordFinds = 0\<rparr>"

definition warmCache :: scanner where
  "warmCache =
     \<lparr>cache = [literalRule ''depressed'' MEDIUM FLAG], lastCacheUpdate = Some 0,
      keywordCollection = [literalRule ''suicide'' HIGH ESCALATE], keywordFinds = 1\<rparr>"

definition noFaults :: "operation \<Rightarrow> bool" where
  "noFaults opn = False"

definition okEnv :: env where
  "okEnv =
     \<lparr>scanning = scanEnvAt 1000, today = ''2024-01-01'', newQueueId = ''64b7f0c2a1d3e4f5a6b7c8e1'',
      newReportId = ''64b7f0c2a1d3e4f5a6b7c8d9'',
      signatureValid = True, processedCreateError = None, fails = noFaults\<rparr>"

definition seededWorld :: world where
  "seededWorld =
     \<lparr>scannerState = scannerWith [literalRule ''suicide'' HIGH ESCALATE,
                                     literalRule ''depressed'' MEDIUM FLAG],
      processedMessages = [], moderationQueue = [], reports = [], auditLog = [],
      chatRooms = [\<lparr>c_streamChannelId = ''messaging:c1'', c_flaggedCount = 0, c_lastMessageAt = None\<rparr>],
      metricsMessagesDaily = [], users = [\<lparr>u_id = ''64b7f0c2a1d3e4f5a6b7c8a3'', u_bannedUntil = None\<rparr>], calls = []\<rparr>"

definition suicideMessage :: message where
  "suicideMessage =
     \<lparr>msg_id = ''msg-1'', msg_text = ''I am thinking about suicide'', msg_userId = ''user-1'',
      msg_cid = ''messaging:c1''\<rparr>"

definition signedRequest :: "message \<Rightarrow> request" where
  "signedRequest msg =
     \<lparr>signature = Some ''sig'', body = \<lparr>ev_type = ''message.new'', ev_message = Some msg\<rparr>\<rparr>"

definition insertFailsEnv :: env where
  "insertFailsEnv = okEnv\<lparr>processedCreateError := Some 1\<rparr>"

definition lookupFailsEnv :: env where
  "lookupFailsEnv = okEnv\<lparr>fails := noFaults(ProcessedFind := True)\<rparr>"

definition deleteFailsEnv :: env where
  "deleteFailsEnv = okEnv\<lparr>fails := noFaults(DeleteMessageCall := True)\<rparr>"


definition isRecorded :: "string \<Rightarrow> world \<Rightarrow> bool" where
  "isRecorded messageId w =
     (find (\<lambda>r. pm_messageId r = messageId) (processedMessages w) \<noteq> None)"





definition raceEnv :: env where
  "raceEnv = okEnv\<lparr>processedCreateError := Some 11000\<rparr>"

definition recordedWorld :: world where
  "recordedWorld =
     seededWorld\<lparr>processedMessages := [\<lparr>pm_messageId = ''msg-1'', pm_processedAt = 0\<rparr>]\<rparr>"

definition queueFailsEnv :: env where
  "queueFailsEnv = okEnv\<lparr>fails := noFaults(QueueCreate := True)\<rparr>"

definition highScan :: ScanResult where
  "highScan =
     \<lparr>severity = HIGH,
      matches = [\<lparr>m_word = ''suicide'', m_severity = HIGH, m_action = ESCALATE, m_position = 20\<rparr>],
      severityScore = 3\<rparr>"

text \<open>
  A report on the message \<open>msg-1\<close>, as \<open>handleHighSeverity\<close> files it, and the same
  report on a message whose id happens to have the form of an ObjectId.
\<close>

definition openReport :: Report where
  "openReport =
     \<lparr>r_id = ''64b7f0c2a1d3e4f5a6b7c8d9'', r_targetType = MESSAGE, r_targetId = ''msg-1'',
      r_reason = ''Automatic: High severity keywords detected - suicide'',
      r_status = UNDER_REVIEW, r_moderatorId = None, r_moderatorComment = None,
      r_resolvedAt = None\<rparr>"

definition hexReport :: Report where
  "hexReport = openReport\<lparr>r_targetId := ''64b7f0c2a1d3e4f5a6b7c8b4''\<rparr>"

definition userReport :: Report where
  "userReport = openReport\<lparr>r_targetId := ''64b7f0c2a1d3e4f5a6b7c8a3''\<rparr>"

definition pendingItem :: ModerationQueueItem where
  "pendingItem =
     \<lparr>q_id = ''64b7f0c2a1d3e4f5a6b7c8e1'',
      q_payload = \<lparr>p_messageId = ''msg-1'', p_userId = ''user-1'', p_channelId = ''messaging:c1'',
                   p_text = ''I am thinking about suicide'', p_matches = matches highScan\<rparr>,
      q_reasonTags = [''suicide''], q_severity = 3, q_processed = False, q_processedAt = None\<rparr>"

definition reportedWorld :: world where
  "reportedWorld = recordedWorld\<lparr>moderationQueue := [pendingItem], reports := [openReport]\<rparr>"

definition hexIdWorld :: world where
  "hexIdWorld = reportedWorld\<lparr>reports := [hexReport]\<rparr>"

definition userIdWorld :: world where
  "userIdWorld = reportedWorld\<lparr>reports := [userReport]\<rparr>"

definition banRequest :: resolveRequest where
  "banRequest =
     \<lparr>rq_moderatorId = ''64b7f0c2a1d3e4f5a6b7c8f2'', rq_reportId = ''64b7f0c2a1d3e4f5a6b7c8d9'',
      rq_action = ''banUser'', rq_comment = Some ''abuse'', rq_banDurationHours = Some 24\<rparr>"

definition dismissRequest :: resolveRequest where
  "dismissRequest = banRequest\<lparr>rq_action := ''dismiss''\<rparr>"

definition laterEnv :: env where
  "laterEnv = okEnv\<lparr>scanning := scanEnvAt 5000\<rparr>"


definition closedReport :: Report where
  "closedReport =
     openReport\<lparr>r_status := RESOLVED, r_moderatorId := Some ''64b7f0c2a1d3e4f5a6b7c8f2'',
                 r_moderatorComment := Some ''abuse'', r_resolvedAt := Some 1000\<rparr>"

definition closedHexReport :: Report where
  "closedHexReport = closedReport\<lparr>r_targetId := ''64b7f0c2a1d3e4f5a6b7c8b4''\<rparr>"

definition doneItem :: ModerationQueueItem where
  "doneItem = pendingItem\<lparr>q_processed := True, q_processedAt := Some 1000\<rparr>"

definition closedWorld :: world where
  "closedWorld = recordedWorld\<lparr>moderationQueue := [doneItem], reports := [closedReport]\<rparr>"

definition banDetails :: actionDetails where
  "banDetails =
     \<lparr>d_action = ''banUser'', d_comment = Some ''abuse'', d_messageDeleted = None,
      d_streamBanned = None, d_bannedUntil = None, d_channelSuspended = None\<rparr>"

definition banResponse :: resolveResponse where
  "banResponse =
     \<lparr>rs_status = 200, rs_reportId = ''64b7f0c2a1d3e4f5a6b7c8d9'', rs_action = ''banUser'',
      rs_reportStatus = RESOLVED, rs_details = banDetails\<rparr>"

definition dismissResponse :: resolveResponse where
  "dismissResponse =
     banResponse\<lparr>rs_action := ''dismiss'', rs_details := banDetails\<lparr>d_action := ''dismiss''\<rparr>\<rparr>"

text \<open>A rule and a text with a sharp s, on which upper-casing changes the scan.\<close>

definition strasseText :: string where
  "strasseText = ''stra'' @ [sharpS] @ ''e''"

text \<open>
  The rules of a scan that matched, in the order the loop meets them, and the matches
  the loop collects from them (before sorting).
\<close>

definition isHit :: "jsError + nat option \<Rightarrow> bool" where
  "isHit r = (case r of Inr (Some p) \<Rightarrow> True | _ \<Rightarrow> False)"

definition matchedRules :: "scanEnv \<Rightarrow> string \<Rightarrow> scanner \<Rightarrow> ModerationKeyword list" where
  "matchedRules env text s =
     (if text = [] \<or> length (trim text) = 0 then []
      else filter (\<lambda>k. isHit (matchKeyword (regexEngine env) k (normalizeText text)))
             (fst (loadKeywords env False s)))"

fun hitsOf :: "engine \<Rightarrow> string \<Rightarrow> ModerationKeyword list \<Rightarrow> KeywordMatch list" where
  "hitsOf e t [] = []"
| "hitsOf e t (k # ks) =
     (case matchKeyword e k t of
        Inr (Some p) \<Rightarrow> toMatch k p # hitsOf e t ks
      | _ \<Rightarrow> hitsOf e t ks)"

section \<open>Properties of the keyword scanner\<close>

lemma scanLoop_matches: "fst (scanLoop e t ks (ms, hs, sc)) = ms @ hitsOf e t ks"
  by (induction ks arbitrary: ms hs sc) (auto split: sum.splits option.splits simp: Let_def)

lemma scanLoop_score:
  "snd (snd (scanLoop e t ks (ms, hs, sc))) =
     fold max (map (getSeverityScore \<circ> m_severity) (hitsOf e t ks)) sc"
  by (induction ks arbitrary: ms hs sc)
     (auto split: sum.splits option.splits simp: Let_def toMatch_def max_def)

lemma scanLoop_severity:
  "getSeverityScore hs = sc \<Longrightarrow>
   getSeverityScore (fst (snd (scanLoop e t ks (ms, hs, sc)))) = snd (snd (scanLoop e t ks (ms, hs, sc)))"
  by (induction ks arbitrary: ms hs sc) (auto split: sum.splits option.splits simp: Let_def)

lemma hitsOf_severities:
  "map m_severity (hitsOf e t ks) = map kw_severity (filter (\<lambda>k. isHit (matchKeyword e k t)) ks)"
  by (induction ks) (auto split: sum.splits option.splits simp: isHit_def toMatch_def)

lemma getSeverityScore_inj: "getSeverityScore a = getSeverityScore b \<Longrightarrow> a = b"
  by (cases a; cases b) auto

lemma getSeverityScore_zero: "getSeverityScore a = 0 \<Longrightarrow> a = NONE"
  by (cases a) auto

lemma first_attaining:
  assumes "getSeverityScore hs = Max (set (0 # map (getSeverityScore \<circ> kw_severity) rs))"
  shows "hs = (case find (\<lambda>k. getSeverityScore (kw_severity k) = getSeverityScore hs) rs of
                 None \<Rightarrow> NONE | Some k \<Rightarrow> kw_severity k)"
proof (cases "find (\<lambda>k. getSeverityScore (kw_severity k) = getSeverityScore hs) rs")
  case None
  then have no: "\<forall>k \<in> set rs. getSeverityScore (kw_severity k) \<noteq> getSeverityScore hs"
    by (simp add: find_None_iff)
  have "Max (set (0 # map (getSeverityScore \<circ> kw_severity) rs)) \<in> set (0 # map (getSeverityScore \<circ> kw_severity) rs)"
    by (rule Max_in) auto
  with assms no have "getSeverityScore hs = 0" by auto
  then show ?thesis using None by (simp add: getSeverityScore_zero)
next
  case (Some k)
  then have "getSeverityScore (kw_severity k) = getSeverityScore hs"
    by (auto simp: find_Some_iff)
  then show ?thesis using Some by (simp add: getSeverityScore_inj)
qed

text \<open>
  C4. For every text, scanner state and environment, the result of \<open>scanText\<close> has:
  \<open>severityScore\<close> the maximum of the scores of its matches under NONE=0, LOW=1,
  MEDIUM=2, HIGH=3, and 0 when there is none; \<open>severity\<close> the severity of the first
  rule met, in rule order, that matched with that score, and NONE when there is none;
  the severities of the matches are those of the matching rules; and \<open>matches\<close> is in
  ascending order of position.
\<close>

theorem scanText_aggregate:
  "severityScore (fst (scanText env text s)) =
     Max (set (0 # map (getSeverityScore \<circ> m_severity) (matches (fst (scanText env text s))))) \<and>
   severity (fst (scanText env text s)) =
     (case find (\<lambda>k. getSeverityScore (kw_severity k) = severityScore (fst (scanText env text s)))
             (matchedRules env text s) of
        None \<Rightarrow> NONE
      | Some k \<Rightarrow> kw_severity k) \<and>
   mset (map m_severity (matches (fst (scanText env text s)))) = mset (map kw_severity (matchedRules env text s)) \<and>
   sorted (map m_position (matches (fst (scanText env text s))))"
proof (cases "text = [] \<or> length (trim text) = 0")
  case True
  then show ?thesis by (auto simp: scanText_def matchedRules_def)
next
  case False
  obtain ks s' where L: "loadKeywords env False s = (ks, s')" by (cases "loadKeywords env False s")
  define e where "e = regexEngine env"
  define t where "t = normalizeText text"
  obtain ms hs sc where R: "scanLoop e t ks ([], NONE, 0) = (ms, hs, sc)"
    by (cases "scanLoop e t ks ([], NONE, 0)")
  have ms: "ms = hitsOf e t ks" using scanLoop_matches [of e t ks "[]" NONE 0] R by simp
  have sc: "sc = Max (set (0 # map (getSeverityScore \<circ> m_severity) ms))"
    using scanLoop_score [of e t ks "[]" NONE 0] R ms
    by (simp only: snd_conv Max.set_eq_fold)
  have hs: "getSeverityScore hs = sc" using scanLoop_severity [of NONE 0 e t ks "[]"] R by simp
  have res: "fst (scanText env text s) = \<lparr>severity = hs, matches = sort_key m_position ms, severityScore = sc\<rparr>"
    using False L R by (simp add: scanText_def e_def t_def)
  have mr: "matchedRules env text s = filter (\<lambda>k. isHit (matchKeyword e k t)) ks"
    using False L by (simp add: matchedRules_def e_def t_def)
  have sev: "map m_severity ms = map kw_severity (matchedRules env text s)"
    by (simp add: ms mr hitsOf_severities)
  have sc2: "getSeverityScore hs = Max (set (0 # map (getSeverityScore \<circ> kw_severity) (matchedRules env text s)))"
    using hs sc sev by (metis map_map)
  have a: "sc = Max (set (0 # map (getSeverityScore \<circ> m_severity) (sort_key m_position ms)))"
    using sc by simp
  have b: "hs = (case find (\<lambda>k. getSeverityScore (kw_severity k) = sc) (matchedRules env text s) of
                 None \<Rightarrow> NONE | Some k \<Rightarrow> kw_severity k)"
    using first_attaining [OF sc2] hs by simp
  have c: "mset (map m_severity (sort_key m_position ms)) = mset (map kw_severity (matchedRules env text s))"
    unfolding sev [symmetric] by simp
  have d: "sorted (map m_position (sort_key m_position ms))" by simp
  show ?thesis unfolding res using a b c d by simp
qed

subsection \<open>Normalisation\<close>

lemma isSpaceChar_lower [simp]: "isSpaceChar (toLowerCaseChar c) = isSpaceChar c"
  unfolding isSpaceChar_def toLowerCaseChar_def Let_def by auto

lemma isWordChar_lower [simp]: "isWordChar (toLowerCaseChar c) = isWordChar c"
  unfolding isWordChar_def toLowerCaseChar_def Let_def by auto

lemma isSpaceChar_blank [simp]: "isSpaceChar (CHR '' '')"
  by (simp add: isSpaceChar_def)

lemma all_dropWhile: "(\<forall>x \<in> set (dropWhile P xs). P x) \<longleftrightarrow> (\<forall>x \<in> set xs. P x)"
  by (induction xs) auto

lemma dropWhile_all: "\<forall>x \<in> set xs. P x \<Longrightarrow> dropWhile P xs = []"
  by simp

lemma trim_empty_iff: "trim text = [] \<longleftrightarrow> (\<forall>c \<in> set text. isSpaceChar c)"
  by (simp add: trim_def all_dropWhile)

lemma same_lower_same_blank:
  assumes "toLowerCase a = toLowerCase b"
  shows "(a = [] \<or> length (trim a) = 0) = (b = [] \<or> length (trim b) = 0)"
proof -
  have "(\<forall>c \<in> set (toLowerCase a). isSpaceChar c) = (\<forall>c \<in> set (toLowerCase b). isSpaceChar c)"
    using assms by simp
  then have "(\<forall>c \<in> set a. isSpaceChar c) = (\<forall>c \<in> set b. isSpaceChar c)"
    by (simp add: toLowerCase_def)
  moreover have "a = [] \<longleftrightarrow> b = []" using assms by (auto simp: toLowerCase_def)
  ultimately show ?thesis by (simp add: trim_empty_iff)
qed

lemma same_lower_same_scan:
  assumes "toLowerCase a = toLowerCase b"
  shows "scanText env a s = scanText env b s"
  using same_lower_same_blank [OF assms] assms
  by (simp add: scanText_def normalizeText_def)

lemma trim_Cons_space: "isSpaceChar c \<Longrightarrow> trim (c # xs) = trim xs"
  by (simp add: trim_def)

lemma trim_snoc_space: "isSpaceChar c \<Longrightarrow> trim (xs @ [c]) = trim xs"
  by (auto simp: trim_def dropWhile_append dropWhile_all)

lemma dropWhile_spaces_append:
  "\<forall>c \<in> set a. isSpaceChar c \<Longrightarrow> dropWhile isSpaceChar (a @ xs) = dropWhile isSpaceChar xs"
  by (induction a) auto

lemma trim_collapse_dropWhile:
  "trim (collapseSpaces (dropWhile isSpaceChar xs)) = trim (collapseSpaces xs)"
  by (cases xs) (auto simp: trim_Cons_space)

lemma trim_collapse_leading:
  assumes "\<forall>c \<in> set a. isSpaceChar c"
  shows "trim (collapseSpaces (a @ xs)) = trim (collapseSpaces xs)"
proof (cases a)
  case Nil
  then show ?thesis by simp
next
  case (Cons c cs)
  with assms have "collapseSpaces (a @ xs) = CHR '' '' # collapseSpaces (dropWhile isSpaceChar xs)"
    by (simp add: dropWhile_spaces_append)
  then show ?thesis by (simp add: trim_Cons_space trim_collapse_dropWhile)
qed

lemma collapse_append_spaces:
  assumes "\<forall>c \<in> set b. isSpaceChar c" "b \<noteq> []"
  shows "collapseSpaces (xs @ b) =
           (if xs \<noteq> [] \<and> isSpaceChar (last xs) then collapseSpaces xs
            else collapseSpaces xs @ [CHR '' ''])"
proof (induction xs rule: collapseSpaces.induct)
  case 1
  from assms obtain c cs where "b = c # cs" by (cases b) auto
  with assms show ?case by (simp add: dropWhile_all)
next
  case (2 c cs)
  show ?case
  proof (cases "isSpaceChar c")
    case True
    show ?thesis
    proof (cases "dropWhile isSpaceChar cs = []")
      case T2: True
      then have allsp: "\<forall>x \<in> set cs. isSpaceChar x" by simp
      then have e1: "dropWhile isSpaceChar (cs @ b) = []"
        using assms by auto
      have l: "isSpaceChar (last (c # cs))" using True allsp by (cases cs) auto
      have "collapseSpaces ((c # cs) @ b) = [CHR '' '']"
        using True by (simp only: append_Cons collapseSpaces.simps e1 if_True)
      moreover have "collapseSpaces (c # cs) = [CHR '' '']"
        using True by (simp only: collapseSpaces.simps T2 if_True)
      ultimately show ?thesis using l by simp
    next
      case F2: False
      then have ne: "cs \<noteq> []" by auto
      have d: "dropWhile isSpaceChar (cs @ b) = dropWhile isSpaceChar cs @ b"
        using F2 by (auto simp: dropWhile_append)
      have l: "last (dropWhile isSpaceChar cs) = last cs"
        using F2 by (metis last_appendR takeWhile_dropWhile_id)
      show ?thesis using True F2 ne d l "2.IH"(1) [OF True] by simp
    qed
  next
    case False
    then show ?thesis using "2.IH"(2) [OF False] by (cases cs) auto
  qed
qed

lemma trim_collapse_trailing:
  assumes "\<forall>c \<in> set b. isSpaceChar c"
  shows "trim (collapseSpaces (xs @ b)) = trim (collapseSpaces xs)"
proof (cases "b = []")
  case True
  then show ?thesis by simp
next
  case False
  show ?thesis by (simp add: collapse_append_spaces [OF assms False] trim_snoc_space)
qed

lemma replaced_all_space:
  "\<forall>c \<in> set p. \<not> isWordChar c \<Longrightarrow>
     \<forall>c \<in> set (replacePunctuation (toLowerCase p)). isSpaceChar c"
  by (auto simp: replacePunctuation_def toLowerCase_def)

lemma normalizeText_surrounding:
  assumes "\<forall>c \<in> set p1. \<not> isWordChar c" "\<forall>c \<in> set p2. \<not> isWordChar c"
  shows "normalizeText (p1 @ text @ p2) = normalizeText text"
proof -
  have "replacePunctuation (toLowerCase (p1 @ text @ p2)) =
          replacePunctuation (toLowerCase p1) @
          (replacePunctuation (toLowerCase text) @ replacePunctuation (toLowerCase p2))"
    by (simp add: replacePunctuation_def toLowerCase_def)
  then show ?thesis
    unfolding normalizeText_def
    using replaced_all_space [OF assms(1)] replaced_all_space [OF assms(2)]
    by (simp add: trim_collapse_leading trim_collapse_trailing)
qed

lemma scanText_surrounding:
  assumes "\<forall>c \<in> set p1. \<not> isWordChar c" "\<forall>c \<in> set p2. \<not> isWordChar c" "trim text \<noteq> []"
  shows "scanText env (p1 @ text @ p2) s = scanText env text s"
proof -
  have "\<not> (\<forall>c \<in> set text. isSpaceChar c)" using assms(3) by (simp add: trim_empty_iff)
  then have "trim (p1 @ text @ p2) \<noteq> []" "text \<noteq> []"
    by (auto simp: trim_empty_iff)
  then show ?thesis
    using assms(3) normalizeText_surrounding [OF assms(1,2)] by (simp add: scanText_def)
qed

lemma scanText_blank:
  "trim text = [] \<Longrightarrow> matches (fst (scanText env text s)) = []"
  by (simp add: scanText_def)

subsection \<open>Case and punctuation\<close>

lemma char_of_223: "char_of (223 :: nat) = CHR 0xDF"
  by code_simp

lemma sharpS_code: "c = sharpS \<longleftrightarrow> (of_char c :: nat) = 223"
proof
  assume "c = sharpS"
  then show "(of_char c :: nat) = 223" by (simp add: sharpS_def)
next
  assume "(of_char c :: nat) = 223"
  then have "char_of (of_char c :: nat) = char_of (223 :: nat)" by simp
  then show "c = sharpS" by (simp only: char_of_char char_of_223 sharpS_def)
qed

lemma lower_upper_char:
  "c \<noteq> sharpS \<Longrightarrow> map toLowerCaseChar (toUpperCaseChar c) = [toLowerCaseChar c]"
  unfolding sharpS_code toUpperCaseChar_def toLowerCaseChar_def Let_def by auto

lemma toLowerCase_toUpperCase:
  "sharpS \<notin> set t \<Longrightarrow> toLowerCase (toUpperCase t) = toLowerCase t"
proof (induction t)
  case Nil
  then show ?case by (simp add: toLowerCase_def toUpperCase_def)
next
  case (Cons c cs)
  then have "c \<noteq> sharpS" "sharpS \<notin> set cs" by auto
  then show ?case
    using Cons.IH lower_upper_char [of c] by (simp add: toLowerCase_def toUpperCase_def)
qed

lemma collapse_leading_run:
  assumes "\<forall>c \<in> set r. isSpaceChar c" "r \<noteq> []"
  shows "collapseSpaces (r @ xs) = CHR '' '' # collapseSpaces (dropWhile isSpaceChar xs)"
proof -
  from assms obtain c cs where "r = c # cs" by (cases r) auto
  with assms show ?thesis by (simp add: dropWhile_spaces_append)
qed

lemma collapse_run:
  assumes "\<forall>c \<in> set r. isSpaceChar c" "r \<noteq> []" "\<forall>c \<in> set r'. isSpaceChar c" "r' \<noteq> []"
  shows "collapseSpaces (xs @ r @ ys) = collapseSpaces (xs @ r' @ ys)"
proof (induction xs rule: collapseSpaces.induct)
  case 1
  show ?case
    using collapse_leading_run [OF assms(1,2)] collapse_leading_run [OF assms(3,4)] by simp
next
  case (2 c cs)
  show ?case
  proof (cases "isSpaceChar c")
    case False
    then show ?thesis using "2.IH"(2) by simp
  next
    case True
    show ?thesis
    proof (cases "dropWhile isSpaceChar cs = []")
      case T2: True
      then have allsp: "\<forall>x \<in> set cs. isSpaceChar x" by simp
      have "dropWhile isSpaceChar (cs @ r @ ys) = dropWhile isSpaceChar ys"
        using allsp assms(1) by (simp add: dropWhile_spaces_append)
      moreover have "dropWhile isSpaceChar (cs @ r' @ ys) = dropWhile isSpaceChar ys"
        using allsp assms(3) by (simp add: dropWhile_spaces_append)
      ultimately show ?thesis using True by simp
    next
      case F2: False
      have d: "\<And>zs. dropWhile isSpaceChar (cs @ zs) = dropWhile isSpaceChar cs @ zs"
        using F2 by (auto simp: dropWhile_append)
      show ?thesis using True d "2.IH"(1) [OF True] by simp
    qed
  qed
qed

lemma replaced_append:
  "replacePunctuation (toLowerCase (xs @ ys)) =
     replacePunctuation (toLowerCase xs) @ replacePunctuation (toLowerCase ys)"
  by (simp add: replacePunctuation_def toLowerCase_def)

lemma replaced_single_space:
  "\<not> isWordChar c \<Longrightarrow> \<exists>d. replacePunctuation (toLowerCase [c]) = [d] \<and> isSpaceChar d"
  by (simp add: replacePunctuation_def toLowerCase_def)

lemma normalizeText_inserted:
  assumes p: "\<forall>c \<in> set p. \<not> isWordChar c"
    and at: "a = [] \<or> b = [] \<or> \<not> isWordChar (last a) \<or> \<not> isWordChar (hd b)"
  shows "normalizeText (a @ p @ b) = normalizeText (a @ b)"
proof (cases "p = []")
  case True
  then show ?thesis by simp
next
  case False
  let ?R = "\<lambda>xs. replacePunctuation (toLowerCase xs)"
  have sp: "\<forall>c \<in> set (?R p). isSpaceChar c" using p by (rule replaced_all_space)
  have ne: "?R p \<noteq> []" using False by (simp add: replacePunctuation_def toLowerCase_def)
  show ?thesis
  proof (cases "a = []")
    case True
    then show ?thesis
      using sp by (simp add: normalizeText_def replaced_append trim_collapse_leading)
  next
    case a: False
    show ?thesis
    proof (cases "b = []")
      case True
      then show ?thesis
        using sp by (simp add: normalizeText_def replaced_append trim_collapse_trailing)
    next
      case b: False
      from at a b consider (left) "\<not> isWordChar (last a)" | (right) "\<not> isWordChar (hd b)" by blast
      then have "collapseSpaces (?R a @ ?R p @ ?R b) = collapseSpaces (?R a @ ?R b)"
      proof cases
        case left
        then obtain d where d: "?R [last a] = [d]" "isSpaceChar d"
          using replaced_single_space by blast
        have "a = butlast a @ [last a]" using a by simp
        then have ra: "?R a = ?R (butlast a) @ [d]"
          using d(1) replaced_append [of "butlast a" "[last a]"] by simp
        have "collapseSpaces (?R (butlast a) @ ([d] @ ?R p) @ ?R b) =
                collapseSpaces (?R (butlast a) @ [d] @ ?R b)"
          using sp d(2) by (intro collapse_run) auto
        then show ?thesis by (simp add: ra)
      next
        case right
        then obtain d where d: "?R [hd b] = [d]" "isSpaceChar d"
          using replaced_single_space by blast
        have "b = [hd b] @ tl b" using b by simp
        then have rb: "?R b = [d] @ ?R (tl b)"
          using d(1) replaced_append [of "[hd b]" "tl b"] by simp
        have "collapseSpaces (?R a @ (?R p @ [d]) @ ?R (tl b)) =
                collapseSpaces (?R a @ [d] @ ?R (tl b))"
          using sp d(2) by (intro collapse_run) auto
        then show ?thesis by (simp add: rb)
      qed
      then show ?thesis by (simp add: normalizeText_def replaced_append)
    qed
  qed
qed

lemma scanText_nonblank:
  assumes "trim x \<noteq> []"
  shows "scanText env x s =
           (case loadKeywords env False s of
              (keywords, s') \<Rightarrow>
                (case scanLoop (regexEngine env) (normalizeText x) keywords ([], NONE, 0) of
                   (ms, highestSeverity, highestScore) \<Rightarrow>
                     (\<lparr>severity = highestSeverity, matches = sort_key m_position ms,
                       severityScore = highestScore\<rparr>, s')))"
proof -
  have "x \<noteq> []" using assms by (auto simp: trim_def)
  then show ?thesis using assms by (simp add: scanText_def)
qed

lemma scanText_inserted:
  assumes "\<forall>c \<in> set p. \<not> isWordChar c"
    "a = [] \<or> b = [] \<or> \<not> isWordChar (last a) \<or> \<not> isWordChar (hd b)" "trim (a @ b) \<noteq> []"
  shows "scanText env (a @ p @ b) s = scanText env (a @ b) s"
proof -
  have "\<not> (\<forall>c \<in> set (a @ b). isSpaceChar c)" using assms(3) by (simp add: trim_empty_iff)
  then have t: "trim (a @ p @ b) \<noteq> []" by (auto simp: trim_empty_iff)
  show ?thesis
    by (simp only: scanText_nonblank [OF t] scanText_nonblank [OF assms(3)]
          normalizeText_inserted [OF assms(1,2)])
qed


text \<open>
  C5 as stated fails: upper-casing turns the sharp s into \<open>SS\<close>, which the scanner's
  lower-casing does not undo. Against the rule \<open>strasse\<close> the text \<open>stra\<close>, sharp s,
  \<open>e\<close> has no match and severity NONE (the sharp s is not a word character and
  becomes a space), while its upper case \<open>STRASSE\<close> matches with severity HIGH.
\<close>

theorem scanText_upper_sharp_s_counterexample:
  "toUpperCase strasseText = ''STRASSE'' \<and>
   normalizeText strasseText = ''stra e'' \<and>
   fst (scanText (scanEnvAt 0) strasseText (scannerWith [literalRule ''strasse'' HIGH ESCALATE])) =
     \<lparr>severity = NONE, matches = [], severityScore = 0\<rparr> \<and>
   fst (scanText (scanEnvAt 0) (toUpperCase strasseText)
          (scannerWith [literalRule ''strasse'' HIGH ESCALATE])) =
     \<lparr>severity = HIGH,
      matches = [\<lparr>m_word = ''strasse'', m_severity = HIGH, m_action = ESCALATE, m_position = 0\<rparr>],
      severityScore = 3\<rparr>"
  by code_simp

text \<open>
  C5, amended. For every text \<open>T\<close> without a sharp s, and more generally for every pair
  of texts that the scanner's lower-casing makes equal, scanning \<open>toUpperCase T\<close> gives
  the same result as scanning \<open>T\<close>: the same severity, score and matches, hence the
  same matched word for every matching rule. Punctuation around a word does not
  suppress a match: characters that are not word characters, put at either end of the
  text or at any place next to a character that is not a word character (or, in one
  statement, at both ends), leave the result of a text that is not blank unchanged, and
  in every case each match of the unpunctuated text is a match of the punctuated one.
\<close>

theorem scanText_case_punctuation_insensitive:
  "(sharpS \<notin> set T \<longrightarrow> scanText env (toUpperCase T) s = scanText env T s) \<and>
   (toLowerCase T' = toLowerCase T \<longrightarrow> scanText env T' s = scanText env T s) \<and>
   (list_all (\<lambda>c. \<not> isWordChar c) (p1 @ p2) \<longrightarrow>
      (trim T \<noteq> [] \<longrightarrow> scanText env (p1 @ T @ p2) s = scanText env T s) \<and>
      set (matches (fst (scanText env T s))) \<subseteq> set (matches (fst (scanText env (p1 @ T @ p2) s)))) \<and>
   (list_all (\<lambda>c. \<not> isWordChar c) p \<and>
    (a = [] \<or> b = [] \<or> \<not> isWordChar (last a) \<or> \<not> isWordChar (hd b)) \<longrightarrow>
      (trim (a @ b) \<noteq> [] \<longrightarrow> scanText env (a @ p @ b) s = scanText env (a @ b) s) \<and>
      set (matches (fst (scanText env (a @ b) s))) \<subseteq>
        set (matches (fst (scanText env (a @ p @ b) s))))"
proof (intro conjI impI)
  assume "sharpS \<notin> set T"
  then show "scanText env (toUpperCase T) s = scanText env T s"
    by (intro same_lower_same_scan toLowerCase_toUpperCase)
next
  assume "toLowerCase T' = toLowerCase T"
  then show "scanText env T' s = scanText env T s" by (rule same_lower_same_scan)
next
  assume p: "list_all (\<lambda>c. \<not> isWordChar c) (p1 @ p2)" and t: "trim T \<noteq> []"
  from p have "\<forall>c \<in> set p1. \<not> isWordChar c" "\<forall>c \<in> set p2. \<not> isWordChar c"
    by (auto simp: list_all_iff)
  then show "scanText env (p1 @ T @ p2) s = scanText env T s"
    using t by (rule scanText_surrounding)
next
  assume p: "list_all (\<lambda>c. \<not> isWordChar c) (p1 @ p2)"
  then have q: "\<forall>c \<in> set p1. \<not> isWordChar c" "\<forall>c \<in> set p2. \<not> isWordChar c"
    by (auto simp: list_all_iff)
  show "set (matches (fst (scanText env T s))) \<subseteq> set (matches (fst (scanText env (p1 @ T @ p2) s)))"
  proof (cases "trim T = []")
    case True
    then show ?thesis by (simp add: scanText_blank)
  next
    case False
    then show ?thesis using scanText_surrounding [OF q False] by simp
  qed
next
  assume h: "list_all (\<lambda>c. \<not> isWordChar c) p \<and>
    (a = [] \<or> b = [] \<or> \<not> isWordChar (last a) \<or> \<not> isWordChar (hd b))"
  then have q: "\<forall>c \<in> set p. \<not> isWordChar c" by (simp add: list_all_iff)
  from h have at: "a = [] \<or> b = [] \<or> \<not> isWordChar (last a) \<or> \<not> isWordChar (hd b)" by simp
  {
    assume "trim (a @ b) \<noteq> []"
    then show "scanText env (a @ p @ b) s = scanText env (a @ b) s"
      using q at by (intro scanText_inserted)
  }
  show "set (matches (fst (scanText env (a @ b) s))) \<subseteq>
        set (matches (fst (scanText env (a @ p @ b) s)))"
  proof (cases "trim (a @ b) = []")
    case True
    then show ?thesis by (simp add: scanText_blank)
  next
    case False
    then show ?thesis using scanText_inserted [OF q at False] by simp
  qed
qed

lemma scan_suicide_shouted:
  "fst (scanText (scanEnvAt 0) ''SUICIDE!!!'' (scannerWith [literalRule ''suicide'' HIGH ESCALATE])) =
     \<lparr>severity = HIGH,
      matches = [\<lparr>m_word = ''suicide'', m_severity = HIGH, m_action = ESCALATE, m_position = 0\<rparr>],
      severityScore = 3\<rparr>"
  by code_simp

lemma normalize_punctuated:
  "normalizeText ''I feel... (SUICIDE)!!!  today?'' = ''i feel suicide today'' \<and>
   normalizeText ''sui-cide'' = ''sui cide''"
  by code_simp

theorem scanText_case_punctuation_insensitive_witness:
  "sharpS \<notin> set ''suicide'' \<and>
   scanText (scanEnvAt 0) (toUpperCase ''suicide'') (scannerWith [literalRule ''suicide'' HIGH ESCALATE]) =
     scanText (scanEnvAt 0) ''suicide'' (scannerWith [literalRule ''suicide'' HIGH ESCALATE]) \<and>
   toLowerCase ''Suicide'' = toLowerCase ''suicide'' \<and>
   scanText (scanEnvAt 0) ''Suicide'' (scannerWith [literalRule ''suicide'' HIGH ESCALATE]) =
     scanText (scanEnvAt 0) ''suicide'' (scannerWith [literalRule ''suicide'' HIGH ESCALATE]) \<and>
   list_all (\<lambda>c. \<not> isWordChar c) ([] @ ''!!!'') \<and> trim ''SUICIDE'' \<noteq> [] \<and>
   scanText (scanEnvAt 0) ([] @ ''SUICIDE'' @ ''!!!'') (scannerWith [literalRule ''suicide'' HIGH ESCALATE]) =
     scanText (scanEnvAt 0) ''SUICIDE'' (scannerWith [literalRule ''suicide'' HIGH ESCALATE]) \<and>
   list_all (\<lambda>c. \<not> isWordChar c) ''!?'' \<and> \<not> isWordChar (hd '' today'') \<and>
   trim (''I feel suicide'' @ '' today'') \<noteq> [] \<and>
   scanText (scanEnvAt 0) (''I feel suicide'' @ ''!?'' @ '' today'')
       (scannerWith [literalRule ''suicide'' HIGH ESCALATE]) =
     scanText (scanEnvAt 0) (''I feel suicide'' @ '' today'')
       (scannerWith [literalRule ''suicide'' HIGH ESCALATE]) \<and>
   map m_word (matches (fst (scanText (scanEnvAt 0) ''SUICIDE!!!''
     (scannerWith [literalRule ''suicide'' HIGH ESCALATE])))) = [''suicide'']"
proof -
  have h0: "sharpS \<notin> set ''suicide''" by code_simp
  have h1: "toLowerCase ''Suicide'' = toLowerCase ''suicide''" by code_simp
  have h2: "list_all (\<lambda>c. \<not> isWordChar c) ([] @ ''!!!'')" by code_simp
  have h3: "trim ''SUICIDE'' \<noteq> []" by code_simp
  have h4: "list_all (\<lambda>c. \<not> isWordChar c) ''!?''" by code_simp
  have h5: "\<not> isWordChar (hd '' today'')" by code_simp
  have h6: "trim (''I feel suicide'' @ '' today'') \<noteq> []" by code_simp
  have a: "scanText (scanEnvAt 0) (toUpperCase ''suicide'') (scannerWith [literalRule ''suicide'' HIGH ESCALATE]) =
     scanText (scanEnvAt 0) ''suicide'' (scannerWith [literalRule ''suicide'' HIGH ESCALATE])"
    using scanText_case_punctuation_insensitive [of "''suicide''"] h0 by blast
  have b: "scanText (scanEnvAt 0) ''Suicide'' (scannerWith [literalRule ''suicide'' HIGH ESCALATE]) =
     scanText (scanEnvAt 0) ''suicide'' (scannerWith [literalRule ''suicide'' HIGH ESCALATE])"
    using scanText_case_punctuation_insensitive [of "''suicide''" _ _ "''Suicide''"] h1 by blast
  have c: "scanText (scanEnvAt 0) ([] @ ''SUICIDE'' @ ''!!!'') (scannerWith [literalRule ''suicide'' HIGH ESCALATE]) =
     scanText (scanEnvAt 0) ''SUICIDE'' (scannerWith [literalRule ''suicide'' HIGH ESCALATE])"
    using scanText_case_punctuation_insensitive [of "''SUICIDE''" _ _ _ "[]" "''!!!''"] h2 h3 by blast
  have d: "scanText (scanEnvAt 0) (''I feel suicide'' @ ''!?'' @ '' today'')
       (scannerWith [literalRule ''suicide'' HIGH ESCALATE]) =
     scanText (scanEnvAt 0) (''I feel suicide'' @ '' today'')
       (scannerWith [literalRule ''suicide'' HIGH ESCALATE])"
    using scanText_case_punctuation_insensitive
            [of _ _ _ _ _ _ "''!?''" "''I feel suicide''" "'' today''"] h4 h5 h6
    by blast
  have e: "map m_word (matches (fst (scanText (scanEnvAt 0) ''SUICIDE!!!''
     (scannerWith [literalRule ''suicide'' HIGH ESCALATE])))) = [''suicide'']"
    by (simp add: scan_suicide_shouted)
  show ?thesis by (intro conjI h0 h1 h2 h3 h4 h5 h6 a b c d e)
qed

subsection \<open>Literal rules\<close>

lemma splitAlternatives_plain: "CHR ''|'' \<notin> set p \<Longrightarrow> splitAlternatives p = [p]"
  by (induction p) auto

lemma parseAlternative_plain:
  "plainTerm w \<Longrightarrow> parseAlternative (w @ [backslash, CHR ''b'']) = Some (map Chr w @ [WordBoundary])"
proof (induction w)
  case Nil
  then show ?case by simp
next
  case (Cons c w)
  obtain d ds where r: "w @ [backslash, CHR ''b''] = d # ds"
    by (cases "w @ [backslash, CHR ''b'']") auto
  have c: "c \<notin> set syntaxChars" "\<not> 128 \<le> (of_char c :: nat)" "c \<noteq> backslash"
    using Cons.prems by (auto simp: plainTerm_def syntaxChars_def)
  have "plainTerm w" using Cons.prems by (simp add: plainTerm_def)
  then have "parseAlternative (d # ds) = Some (map Chr w @ [WordBoundary])"
    using Cons.IH r by simp
  then show ?case using c r by simp
qed

lemma parsePattern_literal:
  assumes "plainTerm w"
  shows "parsePattern (backslash # CHR ''b'' # w @ [backslash, CHR ''b'']) =
           Some [WordBoundary # map Chr w @ [WordBoundary]]"
proof -
  have "CHR ''|'' \<notin> set w" using assms by (auto simp: plainTerm_def syntaxChars_def list_all_iff)
  then have "splitAlternatives (backslash # CHR ''b'' # w @ [backslash, CHR ''b'']) =
               [backslash # CHR ''b'' # w @ [backslash, CHR ''b'']]"
    by (intro splitAlternatives_plain) (simp add: backslash_def)
  then show ?thesis
    using parseAlternative_plain [OF assms] by (simp add: parsePattern_def)
qed

lemma matchAtoms_chars:
  "i \<le> length t \<Longrightarrow> matchAtoms (map Chr w @ rest) t i \<longleftrightarrow>
     i + length w \<le> length t \<and>
     map canonicalize (take (length w) (drop i t)) = map canonicalize w \<and>
     matchAtoms rest t (i + length w)"
proof (induction w arbitrary: i)
  case Nil
  then show ?case by simp
next
  case (Cons c w)
  show ?case
  proof (cases "i < length t")
    case True
    then have "drop i t = t ! i # drop (Suc i) t" by (simp add: Cons_nth_drop_Suc)
    then show ?thesis using Cons.IH [of "Suc i"] True by auto
  next
    case False
    then show ?thesis by simp
  qed
qed

text \<open>
  A literal rule whose term has no expression syntax is evaluated by the model itself,
  never throws, and matches only a whole word or phrase: the matched characters are
  those of the term up to letter case, and \<^verbatim>\<open>\b\<close> holds at both ends.
\<close>

lemma literal_rule_whole_word:
  assumes "plainTerm (kw_word k)" "\<not> kw_isRegex k"
  shows "\<exists>r. matchKeyword engine k t = Inr r \<and>
           (case r of
              None \<Rightarrow> True
            | Some p \<Rightarrow>
                isBoundary t p \<and> isBoundary t (p + length (kw_word k)) \<and>
                p + length (kw_word k) \<le> length t \<and>
                map canonicalize (take (length (kw_word k)) (drop p t)) =
                  map canonicalize (kw_word k))"
proof -
  let ?alts = "[WordBoundary # map Chr (kw_word k) @ [WordBoundary]]"
  have m: "matchKeyword engine k t = Inr (execAlternatives ?alts t)"
    using assms by (simp add: matchKeyword_def regexpExec_def parsePattern_literal)
  show ?thesis
  proof (cases "execAlternatives ?alts t")
    case None
    then show ?thesis using m by simp
  next
    case (Some p)
    then have "matchAtoms (WordBoundary # map Chr (kw_word k) @ [WordBoundary]) t p \<and> p \<le> length t"
      by (auto simp: execAlternatives_def find_Some_iff nth_append split: if_splits)
    then have "isBoundary t p" "p \<le> length t"
      "matchAtoms (map Chr (kw_word k) @ [WordBoundary]) t p" by simp_all
    then show ?thesis
      using m Some matchAtoms_chars [of p t "kw_word k" "[WordBoundary]"] by simp
  qed
qed

lemma stress_not_in_stressed:
  "matchKeyword engine (literalRule ''stress'' LOW FLAG) ''stressed'' = Inr None"
  by (simp add: matchKeyword_def literalRule_def regexpExec_def parsePattern_def backslash_def
        syntaxChars_def execAlternatives_def isBoundary_def isWordChar_def canonicalize_def)

lemma kill_myself_phrase:
  "matchKeyword engine (literalRule ''kill myself'' HIGH ESCALATE) ''i want to kill myself'' = Inr (Some 10) \<and>
   matchKeyword engine (literalRule ''kill myself'' HIGH ESCALATE) ''i kill time myself'' = Inr None \<and>
   matchKeyword engine (literalRule ''kill myself'' HIGH ESCALATE) ''skill myself'' = Inr None"
  by code_simp

text \<open>
  C6. A literal rule is meant to match its term only as a whole word or phrase. The
  term is spliced into the expression \<^verbatim>\<open>\b...\b\<close> unescaped, so for the literal rule
  with term \<open>sad|x\<close> the expression is \<^verbatim>\<open>\bsad|x\b\<close>, whose first alternative has no
  boundary at its end: scanning the text \<open>sadness\<close> reports a match at position 0,
  inside the word, although the text holds neither the word \<open>sad\<close> nor the term.
\<close>

theorem literal_rule_unescaped_term:
  "normalizeText ''sadness'' = ''sadness'' \<and>
   matchKeyword engine (literalRule ''sad|x'' LOW FLAG) ''sadness'' = Inr (Some 0) \<and>
   \<not> isBoundary ''sadness'' 3 \<and>
   fst (scanText (scanEnvAt 0) ''sadness'' (scannerWith [literalRule ''sad|x'' LOW FLAG])) =
     \<lparr>severity = LOW,
      matches = [\<lparr>m_word = ''sad|x'', m_severity = LOW, m_action = FLAG, m_position = 0\<rparr>],
      severityScore = 1\<rparr>"
proof -
  have a: "normalizeText ''sadness'' = ''sadness''" by code_simp
  have b: "matchKeyword engine (literalRule ''sad|x'' LOW FLAG) ''sadness'' = Inr (Some 0)"
    by (simp add: matchKeyword_def literalRule_def regexpExec_def parsePattern_def backslash_def
          syntaxChars_def execAlternatives_def isBoundary_def isWordChar_def canonicalize_def)
  have c: "\<not> isBoundary ''sadness'' 3" by code_simp
  have d: "fst (scanText (scanEnvAt 0) ''sadness'' (scannerWith [literalRule ''sad|x'' LOW FLAG])) =
     \<lparr>severity = LOW,
      matches = [\<lparr>m_word = ''sad|x'', m_severity = LOW, m_action = FLAG, m_position = 0\<rparr>],
      severityScore = 1\<rparr>" by code_simp
  show ?thesis by (intro conjI a b c d)
qed

subsection \<open>Keyword cache\<close>

text \<open>
  C8 as stated fails: with \<open>force\<close> false and a cache refreshed one second ago, but
  empty, \<open>loadKeywords\<close> reads the store again and returns what is stored, not the cache.
\<close>

theorem loadKeywords_empty_cache_counterexample:
  "lastCacheUpdate (freshEmptyCache) = Some 0 \<and> now (scanEnvAt 1000) - 0 < cacheTTL \<and>
   cache freshEmptyCache = [] \<and>
   fst (loadKeywords (scanEnvAt 1000) False freshEmptyCache) = [literalRule ''suicide'' HIGH ESCALATE] \<and>
   keywordFinds (snd (loadKeywords (scanEnvAt 1000) False freshEmptyCache)) =
     keywordFinds freshEmptyCache + 1"
  by (simp add: freshEmptyCache_def scanEnvAt_def cacheTTL_def loadKeywords_def literalRule_def Let_def)

text \<open>
  C8, amended. When \<open>force\<close> is false, the cache is not empty and its age is under the
  TTL of five minutes, the cached set is returned and nothing else happens: the store
  is not read. In every other case the store is queried once; if the query succeeds the
  enabled keywords replace the cache, the time stamp becomes the current time and the
  fresh set is returned; if the query fails the cached set is returned, however old,
  and the cache and its time stamp are unchanged.
\<close>

theorem loadKeywords_cache_policy:
  "(\<not> force \<and> cache s \<noteq> [] \<and> lastCacheUpdate s = Some t \<and> now env - t < cacheTTL \<longrightarrow>
      loadKeywords env force s = (cache s, s)) \<and>
   ((force \<or> cache s = [] \<or> lastCacheUpdate s = None \<or>
       (\<exists>t. lastCacheUpdate s = Some t \<and> cacheTTL \<le> now env - t)) \<longrightarrow>
      keywordFinds (snd (loadKeywords env force s)) = keywordFinds s + 1 \<and>
      (\<not> keywordFindFails env \<longrightarrow>
         fst (loadKeywords env force s) = filter kw_enabled (keywordCollection s) \<and>
         cache (snd (loadKeywords env force s)) = filter kw_enabled (keywordCollection s) \<and>
         lastCacheUpdate (snd (loadKeywords env force s)) = Some (now env)) \<and>
      (keywordFindFails env \<longrightarrow>
         fst (loadKeywords env force s) = cache s \<and>
         cache (snd (loadKeywords env force s)) = cache s \<and>
         lastCacheUpdate (snd (loadKeywords env force s)) = lastCacheUpdate s))"
  by (auto simp: loadKeywords_def Let_def)

theorem loadKeywords_cache_policy_witness:
  "(\<not> False \<and> cache warmCache \<noteq> [] \<and> lastCacheUpdate warmCache = Some 0 \<and>
      now (scanEnvAt 1000) - 0 < cacheTTL \<and>
      loadKeywords (scanEnvAt 1000) False warmCache = (cache warmCache, warmCache)) \<and>
   (lastCacheUpdate warmCache = Some 0 \<and> cacheTTL \<le> now (scanEnvAt 300000) - 0 \<and>
      \<not> keywordFindFails (scanEnvAt 300000) \<and>
      fst (loadKeywords (scanEnvAt 300000) False warmCache) = [literalRule ''suicide'' HIGH ESCALATE] \<and>
      lastCacheUpdate (snd (loadKeywords (scanEnvAt 300000) False warmCache)) = Some 300000) \<and>
   (keywordFindFails ((scanEnvAt 300000)\<lparr>keywordFindFails := True\<rparr>) \<and>
      fst (loadKeywords ((scanEnvAt 300000)\<lparr>keywordFindFails := True\<rparr>) True warmCache) =
        cache warmCache)"
proof -
  have h1: "\<not> False \<and> cache warmCache \<noteq> [] \<and> lastCacheUpdate warmCache = Some 0 \<and>
      now (scanEnvAt 1000) - 0 < cacheTTL"
    by (simp add: warmCache_def scanEnvAt_def cacheTTL_def)
  have h2: "lastCacheUpdate warmCache = Some 0 \<and> cacheTTL \<le> now (scanEnvAt 300000) - 0 \<and>
      \<not> keywordFindFails (scanEnvAt 300000)"
    by (simp add: warmCache_def scanEnvAt_def cacheTTL_def)
  have h3: "keywordFindFails ((scanEnvAt 300000)\<lparr>keywordFindFails := True\<rparr>)" by simp
  have k: "filter kw_enabled (keywordCollection warmCache) = [literalRule ''suicide'' HIGH ESCALATE]"
    by (simp add: warmCache_def literalRule_def)
  have a: "loadKeywords (scanEnvAt 1000) False warmCache = (cache warmCache, warmCache)"
    using loadKeywords_cache_policy [of False warmCache 0 "scanEnvAt 1000"] h1 by blast
  have b: "fst (loadKeywords (scanEnvAt 300000) False warmCache) = [literalRule ''suicide'' HIGH ESCALATE] \<and>
      lastCacheUpdate (snd (loadKeywords (scanEnvAt 300000) False warmCache)) = Some 300000"
    using loadKeywords_cache_policy [of False warmCache _ "scanEnvAt 300000"] h2 k
    by (auto simp: scanEnvAt_def)
  have c: "fst (loadKeywords ((scanEnvAt 300000)\<lparr>keywordFindFails := True\<rparr>) True warmCache) =
        cache warmCache"
    using loadKeywords_cache_policy [of True warmCache _ "(scanEnvAt 300000)\<lparr>keywordFindFails := True\<rparr>"] h3
    by blast
  show ?thesis using h1 h2 h3 a b c by blast
qed

subsection \<open>Idempotency service\<close>

lemma markProcessed_never_throws: "fst (markProcessed e messageId w) = Inr ()"
  by (auto simp: markProcessed_def ProcessedMessage_create_def split: option.splits prod.splits sum.splits)

text \<open>
  C7. \<open>isProcessed\<close> returns false whenever the lookup fails. \<open>markProcessed\<close> never
  throws; when the insert conflicts with a record of the same id, whether the record is
  there already or another instance inserted it first (error code 11000), it returns
  normally and leaves the store as it was.
\<close>

theorem idempotency_fail_open_duplicate_ok:
  "(fails e ProcessedFind \<longrightarrow> \<not> isProcessed e messageId w) \<and>
   fst (markProcessed e messageId w) = Inr () \<and>
   (isRecorded messageId w \<and> processedCreateError e = None \<longrightarrow>
      ProcessedMessage_create e messageId w = (Inl (DbError 11000), w) \<and>
      markProcessed e messageId w = (Inr (), w)) \<and>
   (processedCreateError e = Some 11000 \<longrightarrow>
      ProcessedMessage_create e messageId w = (Inl (DbError 11000), w) \<and>
      markProcessed e messageId w = (Inr (), w))"
  by (auto simp: isProcessed_def markProcessed_def ProcessedMessage_create_def isRecorded_def
           split: option.splits)


theorem idempotency_fail_open_duplicate_ok_witness:
  "fails lookupFailsEnv ProcessedFind \<and> \<not> isProcessed lookupFailsEnv ''msg-1'' recordedWorld \<and>
   isRecorded ''msg-1'' recordedWorld \<and> processedCreateError okEnv = None \<and>
   markProcessed okEnv ''msg-1'' recordedWorld = (Inr (), recordedWorld) \<and>
   processedCreateError raceEnv = Some 11000 \<and>
   markProcessed raceEnv ''msg-1'' seededWorld = (Inr (), seededWorld)"
proof -
  have h1: "fails lookupFailsEnv ProcessedFind" by (simp add: lookupFailsEnv_def)
  have h2: "isRecorded ''msg-1'' recordedWorld \<and> processedCreateError okEnv = None"
    by (simp add: isRecorded_def recordedWorld_def okEnv_def)
  have h3: "processedCreateError raceEnv = Some 11000" by (simp add: raceEnv_def)
  show ?thesis
    using h1 h2 h3
      idempotency_fail_open_duplicate_ok [of lookupFailsEnv "''msg-1''" recordedWorld]
      idempotency_fail_open_duplicate_ok [of okEnv "''msg-1''" recordedWorld]
      idempotency_fail_open_duplicate_ok [of raceEnv "''msg-1''" seededWorld]
    by blast
qed

subsection \<open>Event pipeline\<close>

lemma tryCatchLog_outbound [simp]:
  "tryCatchLog (outbound e opn call) w = (Inr (), w\<lparr>calls := calls w @ [call]\<rparr>)"
  by (simp add: tryCatchLog_def outbound_def)

lemmas handler_defs =
  handleHighSeverity_def handleMediumSeverity_def handleLowSeverity_def updateMetricsAndChatRoom_def
  ModerationQueue_create_def ChatRoom_incFlagged_def AuditLog_create_def dbWrite_def
  bindIO_def returnIO_def

text \<open>
  C2 as stated fails: with an insert that throws a storage error of code 1 (not the
  duplicate-key code), \<open>markProcessed\<close> returns normally, the pipeline runs to its end
  and the webhook answers 200 with \<open>success = true\<close>.
\<close>

theorem markProcessed_error_counterexample:
  "ProcessedMessage_create insertFailsEnv ''msg-1'' seededWorld = (Inl (DbError 1), seededWorld) \<and>
   fst (processMessageCreated insertFailsEnv suicideMessage seededWorld) = Inr () \<and>
   fst (handleStreamWebhook insertFailsEnv (signedRequest suicideMessage) seededWorld) =
     \<lparr>status = 200, success = True\<rparr>"
  by code_simp




lemma pipeline_after_failed_insert:
  assumes ins: "processedCreateError e = Some code" and nf: "\<forall>opn. \<not> fails e opn"
    and nr: "\<not> isRecorded (msg_id msg) w"
    and sc: "scanText (scanning e) (msg_text msg) (scannerState w) = (sr, sc)"
  shows "fst (processMessageCreated e msg w) = Inr ()"
    and "scannerState (snd (processMessageCreated e msg w)) = sc"
    and "map q_severity (moderationQueue (snd (processMessageCreated e msg w))) =
           map q_severity (moderationQueue w) @
             (case severity sr of HIGH \<Rightarrow> [3] | MEDIUM \<Rightarrow> [2] | LOW \<Rightarrow> [1] | NONE \<Rightarrow> [])"
    and "map r_status (reports (snd (processMessageCreated e msg w))) =
           map r_status (reports w) @ (case severity sr of HIGH \<Rightarrow> [UNDER_REVIEW] | _ \<Rightarrow> [])"
    and "map a_action (auditLog (snd (processMessageCreated e msg w))) =
           map a_action (auditLog w) @
             (case severity sr of
                HIGH \<Rightarrow> [''message_moderated_high'']
              | MEDIUM \<Rightarrow> [''message_flagged_medium'']
              | _ \<Rightarrow> [])"
    and "calls (snd (processMessageCreated e msg w)) =
           calls w @
             (case severity sr of
                HIGH \<Rightarrow> [DeleteMessage (msg_id msg) True,
                         NotifyModerators (msg_id msg) (msg_userId msg) (msg_cid msg) ''high'',
                         SendCrisisResources (msg_userId msg)]
              | MEDIUM \<Rightarrow> [FlagMessage (msg_id msg) ''system'' ''Medium severity keywords detected'']
              | _ \<Rightarrow> [])"
    and "metricsMessagesDaily (snd (processMessageCreated e msg w)) =
           upsertDay (today e) (metricsMessagesDaily w)"
    and "processedMessages (snd (processMessageCreated e msg w)) = processedMessages w"
proof -
  have np: "\<not> isProcessed e (msg_id msg) w"
    using nr by (simp add: isProcessed_def isRecorded_def)
  have mp: "markProcessed e (msg_id msg) w = (Inr (), w)"
    using ins by (simp add: markProcessed_def ProcessedMessage_create_def)
  have run: "processMessageCreated e msg w =
     runAll
       [if severity sr = HIGH
          then handleHighSeverity e (msg_id msg) (msg_userId msg) (msg_cid msg) sr (msg_text msg)
        else if severity sr = MEDIUM
          then handleMediumSeverity e (msg_id msg) (msg_userId msg) (msg_cid msg) sr (msg_text msg)
        else if severity sr = LOW
          then handleLowSeverity e (msg_id msg) (msg_userId msg) (msg_cid msg) sr (msg_text msg)
        else returnIO (),
        updateMetricsAndChatRoom e (msg_cid msg)] (w\<lparr>scannerState := sc\<rparr>)"
    using np mp sc
    by (simp add: processMessageCreated_def processAdmitted_def Let_def bindIO_def scanTextIO_def)
  show "fst (processMessageCreated e msg w) = Inr ()"
    unfolding run using nf by (cases "severity sr") (simp_all add: handler_defs)
  show "scannerState (snd (processMessageCreated e msg w)) = sc"
    unfolding run using nf by (cases "severity sr") (simp_all add: handler_defs)
  show "map q_severity (moderationQueue (snd (processMessageCreated e msg w))) =
           map q_severity (moderationQueue w) @
             (case severity sr of HIGH \<Rightarrow> [3] | MEDIUM \<Rightarrow> [2] | LOW \<Rightarrow> [1] | NONE \<Rightarrow> [])"
    unfolding run using nf by (cases "severity sr") (simp_all add: handler_defs)
  show "map r_status (reports (snd (processMessageCreated e msg w))) =
           map r_status (reports w) @ (case severity sr of HIGH \<Rightarrow> [UNDER_REVIEW] | _ \<Rightarrow> [])"
    unfolding run using nf by (cases "severity sr") (simp_all add: handler_defs)
  show "map a_action (auditLog (snd (processMessageCreated e msg w))) =
           map a_action (auditLog w) @
             (case severity sr of
                HIGH \<Rightarrow> [''message_moderated_high'']
              | MEDIUM \<Rightarrow> [''message_flagged_medium'']
              | _ \<Rightarrow> [])"
    unfolding run using nf by (cases "severity sr") (simp_all add: handler_defs)
  show "calls (snd (processMessageCreated e msg w)) =
           calls w @
             (case severity sr of
                HIGH \<Rightarrow> [DeleteMessage (msg_id msg) True,
                         NotifyModerators (msg_id msg) (msg_userId msg) (msg_cid msg) ''high'',
                         SendCrisisResources (msg_userId msg)]
              | MEDIUM \<Rightarrow> [FlagMessage (msg_id msg) ''system'' ''Medium severity keywords detected'']
              | _ \<Rightarrow> [])"
    unfolding run using nf by (cases "severity sr") (simp_all add: handler_defs)
  show "metricsMessagesDaily (snd (processMessageCreated e msg w)) =
           upsertDay (today e) (metricsMessagesDaily w)"
    unfolding run using nf by (cases "severity sr") (simp_all add: handler_defs)
  show "processedMessages (snd (processMessageCreated e msg w)) = processedMessages w"
    unfolding run using nf by (cases "severity sr") (simp_all add: handler_defs)
qed


lemma processMessageCreated_insert_fails:
  assumes "processedCreateError e = Some code" "\<forall>opn. \<not> fails e opn"
  shows "fst (processMessageCreated e msg w) = Inr () \<and>
         processedMessages (snd (processMessageCreated e msg w)) = processedMessages w"
proof (cases "isRecorded (msg_id msg) w")
  case True
  then have "isProcessed e (msg_id msg) w"
    using assms(2) by (simp add: isProcessed_def isRecorded_def)
  then show ?thesis by (simp add: processMessageCreated_def)
next
  case False
  obtain sr sc where "scanText (scanning e) (msg_text msg) (scannerState w) = (sr, sc)"
    by (cases "scanText (scanning e) (msg_text msg) (scannerState w)")
  then show ?thesis
    using pipeline_after_failed_insert(1,8) [OF assms False] by simp
qed

text \<open>
  C2, amended. When the insert of \<open>markProcessed\<close> fails with a storage error that is
  not a duplicate-key conflict (or with any other error), the failure does not leave
  \<open>markProcessed\<close>: it returns normally and no record is stored. The pipeline then
  continues exactly as for an admitted event: the text is classified, and by the
  severity found the queue item, the report, the audit record and the provider calls of
  that severity are made and the metrics are updated; when no later step fails the
  pipeline succeeds and the webhook acknowledges the event with \<open>success = true\<close>.
\<close>

theorem markProcessed_error_swallowed:
  "fst (markProcessed e messageId w) = Inr () \<and>
   (processedCreateError e = Some code \<longrightarrow> markProcessed e messageId w = (Inr (), w)) \<and>
   (processedCreateError e = Some code \<and> (\<forall>opn. \<not> fails e opn) \<and>
    \<not> isRecorded (msg_id msg) w \<longrightarrow>
      fst (processMessageCreated e msg w) = Inr () \<and>
      scannerState (snd (processMessageCreated e msg w)) =
        snd (scanText (scanning e) (msg_text msg) (scannerState w)) \<and>
      map q_severity (moderationQueue (snd (processMessageCreated e msg w))) =
        map q_severity (moderationQueue w) @
          (case severity (fst (scanText (scanning e) (msg_text msg) (scannerState w))) of
             HIGH \<Rightarrow> [3] | MEDIUM \<Rightarrow> [2] | LOW \<Rightarrow> [1] | NONE \<Rightarrow> []) \<and>
      map r_status (reports (snd (processMessageCreated e msg w))) =
        map r_status (reports w) @
          (case severity (fst (scanText (scanning e) (msg_text msg) (scannerState w))) of
             HIGH \<Rightarrow> [UNDER_REVIEW] | _ \<Rightarrow> []) \<and>
      map a_action (auditLog (snd (processMessageCreated e msg w))) =
        map a_action (auditLog w) @
          (case severity (fst (scanText (scanning e) (msg_text msg) (scannerState w))) of
             HIGH \<Rightarrow> [''message_moderated_high'']
           | MEDIUM \<Rightarrow> [''message_flagged_medium'']
           | _ \<Rightarrow> []) \<and>
      calls (snd (processMessageCreated e msg w)) =
        calls w @
          (case severity (fst (scanText (scanning e) (msg_text msg) (scannerState w))) of
             HIGH \<Rightarrow> [DeleteMessage (msg_id msg) True,
                      NotifyModerators (msg_id msg) (msg_userId msg) (msg_cid msg) ''high'',
                      SendCrisisResources (msg_userId msg)]
           | MEDIUM \<Rightarrow> [FlagMessage (msg_id msg) ''system'' ''Medium severity keywords detected'']
           | _ \<Rightarrow> []) \<and>
      metricsMessagesDaily (snd (processMessageCreated e msg w)) =
        upsertDay (today e) (metricsMessagesDaily w) \<and>
      processedMessages (snd (processMessageCreated e msg w)) = processedMessages w) \<and>
   (processedCreateError e = Some code \<and> (\<forall>opn. \<not> fails e opn) \<and>
    signature req \<noteq> None \<and> signature req \<noteq> Some [] \<and> signatureValid e \<longrightarrow>
      fst (handleStreamWebhook e req w) = \<lparr>status = 200, success = True\<rparr> \<and>
      processedMessages (snd (handleStreamWebhook e req w)) = processedMessages w)"
proof (intro conjI)
  show "fst (markProcessed e messageId w) = Inr ()" by (rule markProcessed_never_throws)
next
  show "processedCreateError e = Some code \<longrightarrow> markProcessed e messageId w = (Inr (), w)"
    by (simp add: markProcessed_def ProcessedMessage_create_def)
next
  show "processedCreateError e = Some code \<and> (\<forall>opn. \<not> fails e opn) \<and>
    \<not> isRecorded (msg_id msg) w \<longrightarrow>
      fst (processMessageCreated e msg w) = Inr () \<and>
      scannerState (snd (processMessageCreated e msg w)) =
        snd (scanText (scanning e) (msg_text msg) (scannerState w)) \<and>
      map q_severity (moderationQueue (snd (processMessageCreated e msg w))) =
        map q_severity (moderationQueue w) @
          (case severity (fst (scanText (scanning e) (msg_text msg) (scannerState w))) of
             HIGH \<Rightarrow> [3] | MEDIUM \<Rightarrow> [2] | LOW \<Rightarrow> [1] | NONE \<Rightarrow> []) \<and>
      map r_status (reports (snd (processMessageCreated e msg w))) =
        map r_status (reports w) @
          (case severity (fst (scanText (scanning e) (msg_text msg) (scannerState w))) of
             HIGH \<Rightarrow> [UNDER_REVIEW] | _ \<Rightarrow> []) \<and>
      map a_action (auditLog (snd (processMessageCreated e msg w))) =
        map a_action (auditLog w) @
          (case severity (fst (scanText (scanning e) (msg_text msg) (scannerState w))) of
             HIGH \<Rightarrow> [''message_moderated_high'']
           | MEDIUM \<Rightarrow> [''message_flagged_medium'']
           | _ \<Rightarrow> []) \<and>
      calls (snd (processMessageCreated e msg w)) =
        calls w @
          (case severity (fst (scanText (scanning e) (msg_text msg) (scannerState w))) of
             HIGH \<Rightarrow> [DeleteMessage (msg_id msg) True,
                      NotifyModerators (msg_id msg) (msg_userId msg) (msg_cid msg) ''high'',
                      SendCrisisResources (msg_userId msg)]
           | MEDIUM \<Rightarrow> [FlagMessage (msg_id msg) ''system'' ''Medium severity keywords detected'']
           | _ \<Rightarrow> []) \<and>
      metricsMessagesDaily (snd (processMessageCreated e msg w)) =
        upsertDay (today e) (metricsMessagesDaily w) \<and>
      processedMessages (snd (processMessageCreated e msg w)) = processedMessages w"
  proof
    assume a: "processedCreateError e = Some code \<and> (\<forall>opn. \<not> fails e opn) \<and>
      \<not> isRecorded (msg_id msg) w"
    obtain sr sc where sc: "scanText (scanning e) (msg_text msg) (scannerState w) = (sr, sc)"
      by (cases "scanText (scanning e) (msg_text msg) (scannerState w)")
    from a have ins: "processedCreateError e = Some code" and nf: "\<forall>opn. \<not> fails e opn"
      and nr: "\<not> isRecorded (msg_id msg) w" by simp_all
    note p = pipeline_after_failed_insert [OF ins nf nr sc]
    show "fst (processMessageCreated e msg w) = Inr () \<and>
      scannerState (snd (processMessageCreated e msg w)) =
        snd (scanText (scanning e) (msg_text msg) (scannerState w)) \<and>
      map q_severity (moderationQueue (snd (processMessageCreated e msg w))) =
        map q_severity (moderationQueue w) @
          (case severity (fst (scanText (scanning e) (msg_text msg) (scannerState w))) of
             HIGH \<Rightarrow> [3] | MEDIUM \<Rightarrow> [2] | LOW \<Rightarrow> [1] | NONE \<Rightarrow> []) \<and>
      map r_status (reports (snd (processMessageCreated e msg w))) =
        map r_status (reports w) @
          (case severity (fst (scanText (scanning e) (msg_text msg) (scannerState w))) of
             HIGH \<Rightarrow> [UNDER_REVIEW] | _ \<Rightarrow> []) \<and>
      map a_action (auditLog (snd (processMessageCreated e msg w))) =
        map a_action (auditLog w) @
          (case severity (fst (scanText (scanning e) (msg_text msg) (scannerState w))) of
             HIGH \<Rightarrow> [''message_moderated_high'']
           | MEDIUM \<Rightarrow> [''message_flagged_medium'']
           | _ \<Rightarrow> []) \<and>
      calls (snd (processMessageCreated e msg w)) =
        calls w @
          (case severity (fst (scanText (scanning e) (msg_text msg) (scannerState w))) of
             HIGH \<Rightarrow> [DeleteMessage (msg_id msg) True,
                      NotifyModerators (msg_id msg) (msg_userId msg) (msg_cid msg) ''high'',
                      SendCrisisResources (msg_userId msg)]
           | MEDIUM \<Rightarrow> [FlagMessage (msg_id msg) ''system'' ''Medium severity keywords detected'']
           | _ \<Rightarrow> []) \<and>
      metricsMessagesDaily (snd (processMessageCreated e msg w)) =
        upsertDay (today e) (metricsMessagesDaily w) \<and>
      processedMessages (snd (processMessageCreated e msg w)) = processedMessages w"
      unfolding sc fst_conv snd_conv
      by (intro conjI p)
  qed
next
  show "processedCreateError e = Some code \<and> (\<forall>opn. \<not> fails e opn) \<and>
    signature req \<noteq> None \<and> signature req \<noteq> Some [] \<and> signatureValid e \<longrightarrow>
      fst (handleStreamWebhook e req w) = \<lparr>status = 200, success = True\<rparr> \<and>
      processedMessages (snd (handleStreamWebhook e req w)) = processedMessages w"
  proof
    assume a: "processedCreateError e = Some code \<and> (\<forall>opn. \<not> fails e opn) \<and>
      signature req \<noteq> None \<and> signature req \<noteq> Some [] \<and> signatureValid e"
    then have p: "\<And>msg. fst (processMessageCreated e msg w) = Inr () \<and>
           processedMessages (snd (processMessageCreated e msg w)) = processedMessages w"
      using processMessageCreated_insert_fails by blast
    have "fst (handleStreamWebhook e req w) = \<lparr>status = 200, success = True\<rparr>"
      using a p
      by (auto simp: handleStreamWebhook_def returnIO_def split: option.splits prod.splits sum.splits)
         (metis fst_conv sum.distinct(1))+
    moreover have "processedMessages (snd (handleStreamWebhook e req w)) = processedMessages w"
      using a p
      by (auto simp: handleStreamWebhook_def returnIO_def split: option.splits prod.splits sum.splits)
         (metis snd_conv)+
    ultimately show "fst (handleStreamWebhook e req w) = \<lparr>status = 200, success = True\<rparr> \<and>
      processedMessages (snd (handleStreamWebhook e req w)) = processedMessages w" by simp
  qed
qed

lemma scan_suicideMessage:
  "fst (scanText (scanning insertFailsEnv) (msg_text suicideMessage) (scannerState seededWorld)) =
     highScan"
  by code_simp

theorem markProcessed_error_swallowed_witness:
  "processedCreateError insertFailsEnv = Some 1 \<and> (\<forall>opn. \<not> fails insertFailsEnv opn) \<and>
   \<not> isRecorded (msg_id suicideMessage) seededWorld \<and>
   signature (signedRequest suicideMessage) \<noteq> None \<and>
   signature (signedRequest suicideMessage) \<noteq> Some [] \<and> signatureValid insertFailsEnv \<and>
   markProcessed insertFailsEnv ''msg-1'' seededWorld = (Inr (), seededWorld) \<and>
   fst (processMessageCreated insertFailsEnv suicideMessage seededWorld) = Inr () \<and>
   map q_severity (moderationQueue (snd (processMessageCreated insertFailsEnv suicideMessage seededWorld))) =
     [3] \<and>
   map a_action (auditLog (snd (processMessageCreated insertFailsEnv suicideMessage seededWorld))) =
     [''message_moderated_high''] \<and>
   calls (snd (processMessageCreated insertFailsEnv suicideMessage seededWorld)) =
     [DeleteMessage ''msg-1'' True, NotifyModerators ''msg-1'' ''user-1'' ''messaging:c1'' ''high'',
      SendCrisisResources ''user-1''] \<and>
   processedMessages (snd (processMessageCreated insertFailsEnv suicideMessage seededWorld)) = [] \<and>
   fst (handleStreamWebhook insertFailsEnv (signedRequest suicideMessage) seededWorld) =
     \<lparr>status = 200, success = True\<rparr>"
proof -
  have h: "processedCreateError insertFailsEnv = Some 1 \<and> (\<forall>opn. \<not> fails insertFailsEnv opn) \<and>
   \<not> isRecorded (msg_id suicideMessage) seededWorld \<and>
   signature (signedRequest suicideMessage) \<noteq> None \<and>
   signature (signedRequest suicideMessage) \<noteq> Some [] \<and> signatureValid insertFailsEnv"
    by (simp add: insertFailsEnv_def okEnv_def noFaults_def signedRequest_def isRecorded_def
          seededWorld_def)
  have w0: "moderationQueue seededWorld = [] \<and> auditLog seededWorld = [] \<and> calls seededWorld = [] \<and>
    processedMessages seededWorld = []"
    by (simp add: seededWorld_def)
  have m: "msg_id suicideMessage = ''msg-1'' \<and> msg_userId suicideMessage = ''user-1'' \<and>
    msg_cid suicideMessage = ''messaging:c1''"
    by (simp add: suicideMessage_def)
  have sv: "severity highScan = HIGH" by (simp add: highScan_def)
  note t = markProcessed_error_swallowed
             [of insertFailsEnv "''msg-1''" seededWorld 1 suicideMessage "signedRequest suicideMessage"]
  have a: "markProcessed insertFailsEnv ''msg-1'' seededWorld = (Inr (), seededWorld)"
    using t h by blast
  have b: "fst (processMessageCreated insertFailsEnv suicideMessage seededWorld) = Inr ()"
    using t h by blast
  have c: "map q_severity (moderationQueue (snd (processMessageCreated insertFailsEnv suicideMessage seededWorld))) =
     [3]"
    using t h w0 by (simp add: scan_suicideMessage sv)
  have d: "map a_action (auditLog (snd (processMessageCreated insertFailsEnv suicideMessage seededWorld))) =
     [''message_moderated_high'']"
    using t h w0 by (simp add: scan_suicideMessage sv)
  have e: "calls (snd (processMessageCreated insertFailsEnv suicideMessage seededWorld)) =
     [DeleteMessage ''msg-1'' True, NotifyModerators ''msg-1'' ''user-1'' ''messaging:c1'' ''high'',
      SendCrisisResources ''user-1'']"
    using t h w0 m by (simp add: scan_suicideMessage sv)
  have f: "processedMessages (snd (processMessageCreated insertFailsEnv suicideMessage seededWorld)) = []"
    using t h w0 by simp
  have g: "fst (handleStreamWebhook insertFailsEnv (signedRequest suicideMessage) seededWorld) =
     \<lparr>status = 200, success = True\<rparr>"
    using t h by blast
  show ?thesis using h a b c d e f g by blast
qed

text \<open>
  C9. In \<open>handleHighSeverity\<close> the outcome of the provider delete changes nothing: the
  handler returns the same result and the same world whether the delete throws or not.
  The delete is attempted only after the queue item and the report are written (if
  either write fails, no outbound call is made). When the four durable writes succeed,
  the handler succeeds and the world holds the new queue item of severity 3, the new
  report under review, the incremented flagged counter and the new audit record, and
  the delete was attempted.
\<close>

theorem high_severity_writes_survive_delete_failure:
  "handleHighSeverity (e\<lparr>fails := (fails e)(DeleteMessageCall := True)\<rparr>) i u c sr t w =
     handleHighSeverity (e\<lparr>fails := (fails e)(DeleteMessageCall := False)\<rparr>) i u c sr t w \<and>
   (fails e QueueCreate \<or> fails e ReportCreate \<longrightarrow>
      calls (snd (handleHighSeverity e i u c sr t w)) = calls w) \<and>
   (\<not> fails e QueueCreate \<and> \<not> fails e ReportCreate \<and> \<not> fails e RoomFlaggedInc \<and>
    \<not> fails e AuditCreate \<longrightarrow>
      fst (handleHighSeverity e i u c sr t w) = Inr () \<and>
      (\<exists>q. moderationQueue (snd (handleHighSeverity e i u c sr t w)) = moderationQueue w @ [q] \<and>
           q_severity q = 3 \<and> \<not> q_processed q \<and> p_messageId (q_payload q) = i) \<and>
      (\<exists>r. reports (snd (handleHighSeverity e i u c sr t w)) = reports w @ [r] \<and>
           r_status r = UNDER_REVIEW \<and> r_targetType r = MESSAGE \<and> r_targetId r = i) \<and>
      chatRooms (snd (handleHighSeverity e i u c sr t w)) =
        updateOne (\<lambda>room. c_streamChannelId room = c)
          (\<lambda>room. room\<lparr>c_flaggedCount := c_flaggedCount room + 1\<rparr>) (chatRooms w) \<and>
      (\<exists>a. auditLog (snd (handleHighSeverity e i u c sr t w)) = auditLog w @ [a] \<and>
           a_action a = ''message_moderated_high'' \<and> a_target a = i) \<and>
      calls (snd (handleHighSeverity e i u c sr t w)) =
        calls w @ [DeleteMessage i True, NotifyModerators i u c ''high'', SendCrisisResources u])"
proof (intro conjI impI)
  show "handleHighSeverity (e\<lparr>fails := (fails e)(DeleteMessageCall := True)\<rparr>) i u c sr t w =
     handleHighSeverity (e\<lparr>fails := (fails e)(DeleteMessageCall := False)\<rparr>) i u c sr t w"
    by (simp add: handler_defs)
next
  assume "fails e QueueCreate \<or> fails e ReportCreate"
  then show "calls (snd (handleHighSeverity e i u c sr t w)) = calls w"
    by (auto simp: handler_defs)
next
  assume a: "\<not> fails e QueueCreate \<and> \<not> fails e ReportCreate \<and> \<not> fails e RoomFlaggedInc \<and>
    \<not> fails e AuditCreate"
  then show "fst (handleHighSeverity e i u c sr t w) = Inr ()"
    by (simp add: handler_defs)
  from a show "\<exists>q. moderationQueue (snd (handleHighSeverity e i u c sr t w)) = moderationQueue w @ [q] \<and>
           q_severity q = 3 \<and> \<not> q_processed q \<and> p_messageId (q_payload q) = i"
    by (simp add: handler_defs)
  from a show "\<exists>r. reports (snd (handleHighSeverity e i u c sr t w)) = reports w @ [r] \<and>
           r_status r = UNDER_REVIEW \<and> r_targetType r = MESSAGE \<and> r_targetId r = i"
    by (simp add: handler_defs)
  from a show "chatRooms (snd (handleHighSeverity e i u c sr t w)) =
        updateOne (\<lambda>room. c_streamChannelId room = c)
          (\<lambda>room. room\<lparr>c_flaggedCount := c_flaggedCount room + 1\<rparr>) (chatRooms w)"
    by (simp add: handler_defs)
  from a show "\<exists>a. auditLog (snd (handleHighSeverity e i u c sr t w)) = auditLog w @ [a] \<and>
           a_action a = ''message_moderated_high'' \<and> a_target a = i"
    by (simp add: handler_defs)
  from a show "calls (snd (handleHighSeverity e i u c sr t w)) =
        calls w @ [DeleteMessage i True, NotifyModerators i u c ''high'', SendCrisisResources u]"
    by (simp add: handler_defs)
qed


theorem high_severity_writes_survive_delete_failure_witness:
  "fails queueFailsEnv QueueCreate \<and>
   calls (snd (handleHighSeverity queueFailsEnv ''msg-1'' ''user-1'' ''messaging:c1'' highScan
                 ''suicide'' seededWorld)) = calls seededWorld \<and>
   fails deleteFailsEnv DeleteMessageCall \<and>
   \<not> fails deleteFailsEnv QueueCreate \<and> \<not> fails deleteFailsEnv ReportCreate \<and>
   \<not> fails deleteFailsEnv RoomFlaggedInc \<and> \<not> fails deleteFailsEnv AuditCreate \<and>
   fst (handleHighSeverity deleteFailsEnv ''msg-1'' ''user-1'' ''messaging:c1'' highScan
          ''suicide'' seededWorld) = Inr () \<and>
   map q_severity (moderationQueue (snd (handleHighSeverity deleteFailsEnv ''msg-1'' ''user-1''
          ''messaging:c1'' highScan ''suicide'' seededWorld))) = [3] \<and>
   map r_status (reports (snd (handleHighSeverity deleteFailsEnv ''msg-1'' ''user-1''
          ''messaging:c1'' highScan ''suicide'' seededWorld))) = [UNDER_REVIEW] \<and>
   map a_action (auditLog (snd (handleHighSeverity deleteFailsEnv ''msg-1'' ''user-1''
          ''messaging:c1'' highScan ''suicide'' seededWorld))) = [''message_moderated_high''] \<and>
   map c_flaggedCount (chatRooms (snd (handleHighSeverity deleteFailsEnv ''msg-1'' ''user-1''
          ''messaging:c1'' highScan ''suicide'' seededWorld))) = [1]"
proof -
  have h1: "fails queueFailsEnv QueueCreate" by (simp add: queueFailsEnv_def)
  have h2: "fails deleteFailsEnv DeleteMessageCall \<and>
   \<not> fails deleteFailsEnv QueueCreate \<and> \<not> fails deleteFailsEnv ReportCreate \<and>
   \<not> fails deleteFailsEnv RoomFlaggedInc \<and> \<not> fails deleteFailsEnv AuditCreate"
    by (simp add: deleteFailsEnv_def okEnv_def noFaults_def)
  have e: "moderationQueue seededWorld = [] \<and> reports seededWorld = [] \<and> auditLog seededWorld = [] \<and>
    chatRooms seededWorld =
      [\<lparr>c_streamChannelId = ''messaging:c1'', c_flaggedCount = 0, c_lastMessageAt = None\<rparr>]"
    by (simp add: seededWorld_def)
  note t1 = high_severity_writes_survive_delete_failure
              [of queueFailsEnv "''msg-1''" "''user-1''" "''messaging:c1''" highScan "''suicide''" seededWorld]
  note t2 = high_severity_writes_survive_delete_failure
              [of deleteFailsEnv "''msg-1''" "''user-1''" "''messaging:c1''" highScan "''suicide''" seededWorld]
  have a: "calls (snd (handleHighSeverity queueFailsEnv ''msg-1'' ''user-1'' ''messaging:c1'' highScan
                 ''suicide'' seededWorld)) = calls seededWorld"
    using t1 h1 by blast
  have b: "fst (handleHighSeverity deleteFailsEnv ''msg-1'' ''user-1'' ''messaging:c1'' highScan
          ''suicide'' seededWorld) = Inr ()"
    using t2 h2 by blast
  have c: "map q_severity (moderationQueue (snd (handleHighSeverity deleteFailsEnv ''msg-1'' ''user-1''
          ''messaging:c1'' highScan ''suicide'' seededWorld))) = [3]"
    using t2 h2 e by auto
  have d: "map r_status (reports (snd (handleHighSeverity deleteFailsEnv ''msg-1'' ''user-1''
          ''messaging:c1'' highScan ''suicide'' seededWorld))) = [UNDER_REVIEW]"
    using t2 h2 e by auto
  have f: "map a_action (auditLog (snd (handleHighSeverity deleteFailsEnv ''msg-1'' ''user-1''
          ''messaging:c1'' highScan ''suicide'' seededWorld))) = [''message_moderated_high'']"
    using t2 h2 e by auto
  have g: "map c_flaggedCount (chatRooms (snd (handleHighSeverity deleteFailsEnv ''msg-1'' ''user-1''
          ''messaging:c1'' highScan ''suicide'' seededWorld))) = [1]"
    using t2 h2 e by auto
  show ?thesis using h1 h2 a b c d f g by blast
qed

text \<open>
  The whole pipeline on a message with a HIGH verdict, when the provider delete throws:
  the webhook still answers with success, and the queue item of severity 3, the report
  under review, the flagged counter and the audit record are all there.
\<close>

lemma high_verdict_pipeline_delete_fails:
  "fst (handleStreamWebhook deleteFailsEnv (signedRequest suicideMessage) seededWorld) =
     \<lparr>status = 200, success = True\<rparr> \<and>
   map q_severity (moderationQueue (snd (handleStreamWebhook deleteFailsEnv
     (signedRequest suicideMessage) seededWorld))) = [3] \<and>
   map r_status (reports (snd (handleStreamWebhook deleteFailsEnv
     (signedRequest suicideMessage) seededWorld))) = [UNDER_REVIEW] \<and>
   map c_flaggedCount (chatRooms (snd (handleStreamWebhook deleteFailsEnv
     (signedRequest suicideMessage) seededWorld))) = [1] \<and>
   map a_action (auditLog (snd (handleStreamWebhook deleteFailsEnv
     (signedRequest suicideMessage) seededWorld))) = [''message_moderated_high''] \<and>
   calls (snd (handleStreamWebhook deleteFailsEnv (signedRequest suicideMessage) seededWorld)) =
     [DeleteMessage ''msg-1'' True, NotifyModerators ''msg-1'' ''user-1'' ''messaging:c1'' ''high'',
      SendCrisisResources ''user-1'']"
  by code_simp

subsection \<open>Duplicate deliveries\<close>
























subsection \<open>Resolution workflow\<close>

lemma find_saveById:
  "find (\<lambda>d. ident d = k) docs = Some doc0 \<Longrightarrow> ident doc = k \<Longrightarrow>
     find (\<lambda>d. ident d = k) (saveById ident doc docs) = Some doc"
  by (induction docs) (auto simp: saveById_def)

lemma find_key: "find (\<lambda>d. ident d = k) docs = Some doc0 \<Longrightarrow> ident doc0 = k"
  by (auto simp: find_Some_iff)

lemmas resolve_defs =
  resolveModerationAction_def processQueueItem_def executeAction_def removeAction_def
  banUserAction_def suspendChannelAction_def findById_def dbFind_def dbWrite_def outbound_def
  AuditLog_create_def bindIO_def returnIO_def throwIO_def

lemma resolve_already_resolved:
  assumes "find (\<lambda>r. r_id r = rq_reportId req) (reports w) = Some r" "r_status r = RESOLVED"
  shows "resolveModerationAction e req w =
           (if \<not> isObjectId (rq_reportId req) then (Inl (CastError (rq_reportId req)), w)
            else if fails e ReportFind then (Inl (DbError 0), w)
            else (Inl (AppError ''Report already resolved'' 400 ''ALREADY_RESOLVED''), w))"
  using assms by (simp add: resolve_defs)

lemma process_already_processed:
  assumes "find (\<lambda>q. q_id q = ident) (moderationQueue w) = Some q" "q_processed q"
  shows "processQueueItem e ident moderatorId w =
           (if \<not> isObjectId ident then (Inl (CastError ident), w)
            else if fails e QueueFind then (Inl (DbError 0), w)
            else (Inl (AppError ''Queue item already processed'' 400 ''ALREADY_PROCESSED''), w))"
  using assms by (simp add: resolve_defs)

lemma process_first_call:
  assumes "find (\<lambda>q. q_id q = ident) (moderationQueue w) = Some q" "\<not> q_processed q"
    "isObjectId ident" "\<not> fails e QueueFind" "\<not> fails e QueueSave" "\<not> fails e AuditCreate"
  shows "processQueueItem e ident moderatorId w =
           (Inr (), w\<lparr>moderationQueue :=
                         saveById q_id (q\<lparr>q_processed := True, q_processedAt := Some (now (scanning e))\<rparr>)
                           (moderationQueue w),
                       auditLog := auditLog w @
                         [\<lparr>a_action = ''queue_item_processed'', a_actorUserId = Some moderatorId,
                           a_target = q_id q, a_timestamp = now (scanning e),
                           a_meta = QueueMeta (q_severity q) (q_reasonTags q)\<rparr>]\<rparr>)"
  using assms by (simp add: resolve_defs Let_def)

lemma executeAction_frame:
  "reports (snd (executeAction e req r d w)) = reports w \<and>
   auditLog (snd (executeAction e req r d w)) = auditLog w"
  by (auto simp: resolve_defs Let_def split: option.splits prod.splits sum.splits)

lemma executeAction_succeeds:
  assumes "rq_action req = ''dismiss'' \<or> rq_action req = ''remove'' \<or>
           rq_action req = ''banUser'' \<or> rq_action req = ''suspendChannel''"
    "\<forall>opn. \<not> fails e opn"
    "rq_action req = ''banUser'' \<and> (r_targetType r = MESSAGE \<or> r_targetType r = USER) \<longrightarrow>
       isObjectId (r_targetId r)"
  shows "\<exists>details. fst (executeAction e req r d w) = Inr details"
  using assms
  by (auto simp: resolve_defs Let_def split: option.splits prod.splits sum.splits)

lemma resolve_success:
  assumes "fst (resolveModerationAction e req w) = Inr resp"
  shows "\<exists>r. find (\<lambda>r. r_id r = rq_reportId req) (reports w) = Some r \<and>
           reports (snd (resolveModerationAction e req w)) =
             saveById r_id (r\<lparr>r_status := RESOLVED, r_moderatorId := Some (rq_moderatorId req),
                              r_moderatorComment := map_option trim (rq_comment req),
                              r_resolvedAt := Some (now (scanning e))\<rparr>) (reports w) \<and>
           length (auditLog (snd (resolveModerationAction e req w))) = length (auditLog w) + 1"
proof -
  from assms obtain r where f: "find (\<lambda>r. r_id r = rq_reportId req) (reports w) = Some r"
    and nf: "\<not> fails e ReportFind" and oid: "isObjectId (rq_reportId req)"
    and nr: "r_status r \<noteq> RESOLVED"
    by (auto simp: resolveModerationAction_def bindIO_def findById_def dbFind_def throwIO_def
             split: if_splits option.splits)
  let ?d0 = "\<lparr>d_action = rq_action req, d_comment = rq_comment req,
                       d_messageDeleted = None, d_streamBanned = None, d_bannedUntil = None,
                       d_channelSuspended = None\<rparr>"
  obtain res wa where x: "executeAction e req r ?d0 w = (res, wa)"
    by (cases "executeAction e req r ?d0 w")
  have fr: "reports wa = reports w" "auditLog wa = auditLog w"
    using executeAction_frame [of e req r ?d0 w] x by simp_all
  from assms f nf oid nr x obtain details where res: "res = Inr details"
    by (cases res)
       (auto simp: resolveModerationAction_def bindIO_def findById_def dbFind_def throwIO_def)
  from assms f nf oid nr x res have ok: "\<not> fails e ReportSave" "\<not> fails e AuditCreate"
    by (auto simp: resolveModerationAction_def bindIO_def findById_def dbFind_def throwIO_def
                   dbWrite_def AuditLog_create_def Let_def split: if_splits)
  show ?thesis
    using f nf oid nr x res ok fr
    by (simp add: resolveModerationAction_def bindIO_def findById_def dbFind_def throwIO_def
                  dbWrite_def AuditLog_create_def Let_def returnIO_def)
qed

lemma resolve_first_call:
  assumes f: "find (\<lambda>r. r_id r = rq_reportId req) (reports w) = Some r"
    and nr: "r_status r \<noteq> RESOLVED" and oid: "isObjectId (rq_reportId req)"
    and act: "rq_action req = ''dismiss'' \<or> rq_action req = ''remove'' \<or>
              rq_action req = ''banUser'' \<or> rq_action req = ''suspendChannel''"
    and nf: "\<forall>opn. \<not> fails e opn"
    and tgt: "rq_action req = ''banUser'' \<and> (r_targetType r = MESSAGE \<or> r_targetType r = USER) \<longrightarrow>
                isObjectId (r_targetId r)"
  shows "\<exists>resp. fst (resolveModerationAction e req w) = Inr resp"
proof -
  let ?d0 = "\<lparr>d_action = rq_action req, d_comment = rq_comment req,
                       d_messageDeleted = None, d_streamBanned = None, d_bannedUntil = None,
                       d_channelSuspended = None\<rparr>"
  obtain details where "fst (executeAction e req r ?d0 w) = Inr details"
    using executeAction_succeeds [OF act nf tgt] by blast
  then obtain wa where x: "executeAction e req r ?d0 w = (Inr details, wa)"
    by (cases "executeAction e req r ?d0 w") auto
  show ?thesis
    using f nr oid nf x
    by (simp add: resolveModerationAction_def bindIO_def findById_def dbFind_def throwIO_def
                  dbWrite_def AuditLog_create_def Let_def returnIO_def)
qed


text \<open>
  C3. Resolving a report that is already RESOLVED, or processing a queue item that is
  already processed, fails and leaves the world exactly as it was (with the error
  \<open>ALREADY_RESOLVED\<close>, respectively \<open>ALREADY_PROCESSED\<close>, when the identifier is a
  well-formed ObjectId and the lookup itself does not fail): no time stamp changes and
  no audit record is added. A first call on an unprocessed item sets \<open>processed\<close> and
  \<open>processedAt\<close> and appends one audit record. A first call on an unresolved report,
  with one of the four actions and no failing operation (for a ban, the target id being
  a well-formed ObjectId), succeeds; and every call that succeeds leaves the report
  RESOLVED with the time of that call and appends one audit record. After either, every
  further call fails and changes nothing.
\<close>

theorem resolution_exactly_once:
  "(find (\<lambda>r. r_id r = rq_reportId req) (reports w) = Some r \<and> r_status r = RESOLVED \<longrightarrow>
      snd (resolveModerationAction e req w) = w \<and>
      (\<exists>err. fst (resolveModerationAction e req w) = Inl err) \<and>
      (isObjectId (rq_reportId req) \<and> \<not> fails e ReportFind \<longrightarrow>
         fst (resolveModerationAction e req w) =
           Inl (AppError ''Report already resolved'' 400 ''ALREADY_RESOLVED''))) \<and>
   (find (\<lambda>q. q_id q = ident) (moderationQueue w) = Some q \<and> q_processed q \<longrightarrow>
      snd (processQueueItem e ident moderatorId w) = w \<and>
      (\<exists>err. fst (processQueueItem e ident moderatorId w) = Inl err) \<and>
      (isObjectId ident \<and> \<not> fails e QueueFind \<longrightarrow>
         fst (processQueueItem e ident moderatorId w) =
           Inl (AppError ''Queue item already processed'' 400 ''ALREADY_PROCESSED''))) \<and>
   (find (\<lambda>q. q_id q = ident) (moderationQueue w) = Some q \<and> \<not> q_processed q \<and>
    isObjectId ident \<and>
    \<not> fails e QueueFind \<and> \<not> fails e QueueSave \<and> \<not> fails e AuditCreate \<longrightarrow>
      fst (processQueueItem e ident moderatorId w) = Inr () \<and>
      find (\<lambda>q. q_id q = ident) (moderationQueue (snd (processQueueItem e ident moderatorId w))) =
        Some (q\<lparr>q_processed := True, q_processedAt := Some (now (scanning e))\<rparr>) \<and>
      length (auditLog (snd (processQueueItem e ident moderatorId w))) = length (auditLog w) + 1 \<and>
      snd (processQueueItem e' ident moderatorId' (snd (processQueueItem e ident moderatorId w))) =
        snd (processQueueItem e ident moderatorId w) \<and>
      (\<exists>err. fst (processQueueItem e' ident moderatorId'
                      (snd (processQueueItem e ident moderatorId w))) = Inl err)) \<and>
   (fst (resolveModerationAction e req w) = Inr resp \<longrightarrow>
      (\<exists>r'. find (\<lambda>r. r_id r = rq_reportId req) (reports (snd (resolveModerationAction e req w))) =
              Some r' \<and>
            r_status r' = RESOLVED \<and> r_resolvedAt r' = Some (now (scanning e))) \<and>
      length (auditLog (snd (resolveModerationAction e req w))) = length (auditLog w) + 1 \<and>
      (rq_reportId req' = rq_reportId req \<longrightarrow>
         snd (resolveModerationAction e' req' (snd (resolveModerationAction e req w))) =
           snd (resolveModerationAction e req w) \<and>
         (\<exists>err. fst (resolveModerationAction e' req' (snd (resolveModerationAction e req w))) =
                  Inl err))) \<and>
   (find (\<lambda>r. r_id r = rq_reportId req) (reports w) = Some r \<and> r_status r \<noteq> RESOLVED \<and>
    isObjectId (rq_reportId req) \<and>
    (rq_action req = ''dismiss'' \<or> rq_action req = ''remove'' \<or>
     rq_action req = ''banUser'' \<or> rq_action req = ''suspendChannel'') \<and>
    (\<forall>opn. \<not> fails e opn) \<and>
    (rq_action req = ''banUser'' \<and> (r_targetType r = MESSAGE \<or> r_targetType r = USER) \<longrightarrow>
       isObjectId (r_targetId r)) \<longrightarrow>
      (\<exists>resp. fst (resolveModerationAction e req w) = Inr resp) \<and>
      find (\<lambda>r. r_id r = rq_reportId req) (reports (snd (resolveModerationAction e req w))) =
        Some (r\<lparr>r_status := RESOLVED, r_moderatorId := Some (rq_moderatorId req),
                 r_moderatorComment := map_option trim (rq_comment req),
                 r_resolvedAt := Some (now (scanning e))\<rparr>) \<and>
      length (auditLog (snd (resolveModerationAction e req w))) = length (auditLog w) + 1 \<and>
      (rq_reportId req' = rq_reportId req \<longrightarrow>
         snd (resolveModerationAction e' req' (snd (resolveModerationAction e req w))) =
           snd (resolveModerationAction e req w) \<and>
         (\<exists>err. fst (resolveModerationAction e' req' (snd (resolveModerationAction e req w))) =
                  Inl err)))"
proof -
  have c1: "find (\<lambda>r. r_id r = rq_reportId req) (reports w) = Some r \<and> r_status r = RESOLVED \<longrightarrow>
      snd (resolveModerationAction e req w) = w \<and>
      (\<exists>err. fst (resolveModerationAction e req w) = Inl err) \<and>
      (isObjectId (rq_reportId req) \<and> \<not> fails e ReportFind \<longrightarrow>
         fst (resolveModerationAction e req w) =
           Inl (AppError ''Report already resolved'' 400 ''ALREADY_RESOLVED''))"
    by (simp add: resolve_already_resolved)
  have c2: "find (\<lambda>q. q_id q = ident) (moderationQueue w) = Some q \<and> q_processed q \<longrightarrow>
      snd (processQueueItem e ident moderatorId w) = w \<and>
      (\<exists>err. fst (processQueueItem e ident moderatorId w) = Inl err) \<and>
      (isObjectId ident \<and> \<not> fails e QueueFind \<longrightarrow>
         fst (processQueueItem e ident moderatorId w) =
           Inl (AppError ''Queue item already processed'' 400 ''ALREADY_PROCESSED''))"
    by (simp add: process_already_processed)
  have c3: "find (\<lambda>q. q_id q = ident) (moderationQueue w) = Some q \<and> \<not> q_processed q \<and>
    isObjectId ident \<and>
    \<not> fails e QueueFind \<and> \<not> fails e QueueSave \<and> \<not> fails e AuditCreate \<longrightarrow>
      fst (processQueueItem e ident moderatorId w) = Inr () \<and>
      find (\<lambda>q. q_id q = ident) (moderationQueue (snd (processQueueItem e ident moderatorId w))) =
        Some (q\<lparr>q_processed := True, q_processedAt := Some (now (scanning e))\<rparr>) \<and>
      length (auditLog (snd (processQueueItem e ident moderatorId w))) = length (auditLog w) + 1 \<and>
      snd (processQueueItem e' ident moderatorId' (snd (processQueueItem e ident moderatorId w))) =
        snd (processQueueItem e ident moderatorId w) \<and>
      (\<exists>err. fst (processQueueItem e' ident moderatorId'
                      (snd (processQueueItem e ident moderatorId w))) = Inl err)"
  proof (intro impI)
    assume a: "find (\<lambda>q. q_id q = ident) (moderationQueue w) = Some q \<and> \<not> q_processed q \<and>
      isObjectId ident \<and>
      \<not> fails e QueueFind \<and> \<not> fails e QueueSave \<and> \<not> fails e AuditCreate"
    let ?q' = "q\<lparr>q_processed := True, q_processedAt := Some (now (scanning e))\<rparr>"
    let ?w1 = "snd (processQueueItem e ident moderatorId w)"
    have k: "q_id q = ident" using a find_key [of q_id ident "moderationQueue w" q] by simp
    have x: "processQueueItem e ident moderatorId w =
             (Inr (), w\<lparr>moderationQueue := saveById q_id ?q' (moderationQueue w),
                         auditLog := auditLog w @
                           [\<lparr>a_action = ''queue_item_processed'', a_actorUserId = Some moderatorId,
                             a_target = q_id q, a_timestamp = now (scanning e),
                             a_meta = QueueMeta (q_severity q) (q_reasonTags q)\<rparr>]\<rparr>)"
      using a by (simp add: process_first_call)
    have f1: "find (\<lambda>q. q_id q = ident) (moderationQueue ?w1) = Some ?q'"
      using x a k find_saveById [of q_id ident "moderationQueue w" q ?q'] by simp
    have y: "processQueueItem e' ident moderatorId' ?w1 =
             (if \<not> isObjectId ident then (Inl (CastError ident), ?w1)
              else if fails e' QueueFind then (Inl (DbError 0), ?w1)
              else (Inl (AppError ''Queue item already processed'' 400 ''ALREADY_PROCESSED''), ?w1))"
      using f1 by (intro process_already_processed [of ident ?w1 ?q']) simp_all
    show "fst (processQueueItem e ident moderatorId w) = Inr () \<and>
      find (\<lambda>q. q_id q = ident) (moderationQueue ?w1) = Some ?q' \<and>
      length (auditLog ?w1) = length (auditLog w) + 1 \<and>
      snd (processQueueItem e' ident moderatorId' ?w1) = ?w1 \<and>
      (\<exists>err. fst (processQueueItem e' ident moderatorId' ?w1) = Inl err)"
      using x f1 y by simp
  qed
  have c4: "fst (resolveModerationAction e req w) = Inr resp \<Longrightarrow>
      (\<exists>r0. find (\<lambda>r. r_id r = rq_reportId req) (reports w) = Some r0 \<and>
         find (\<lambda>r. r_id r = rq_reportId req) (reports (snd (resolveModerationAction e req w))) =
           Some (r0\<lparr>r_status := RESOLVED, r_moderatorId := Some (rq_moderatorId req),
                    r_moderatorComment := map_option trim (rq_comment req),
                    r_resolvedAt := Some (now (scanning e))\<rparr>)) \<and>
      length (auditLog (snd (resolveModerationAction e req w))) = length (auditLog w) + 1 \<and>
      (rq_reportId req' = rq_reportId req \<longrightarrow>
         snd (resolveModerationAction e' req' (snd (resolveModerationAction e req w))) =
           snd (resolveModerationAction e req w) \<and>
         (\<exists>err. fst (resolveModerationAction e' req' (snd (resolveModerationAction e req w))) =
                  Inl err))" for resp
  proof -
    assume a: "fst (resolveModerationAction e req w) = Inr resp"
    let ?w1 = "snd (resolveModerationAction e req w)"
    from resolve_success [OF a] obtain r0 where
      f: "find (\<lambda>r. r_id r = rq_reportId req) (reports w) = Some r0" and
      s: "reports ?w1 =
               saveById r_id (r0\<lparr>r_status := RESOLVED, r_moderatorId := Some (rq_moderatorId req),
                                r_moderatorComment := map_option trim (rq_comment req),
                                r_resolvedAt := Some (now (scanning e))\<rparr>) (reports w)" and
      l: "length (auditLog ?w1) = length (auditLog w) + 1"
      by blast
    let ?r' = "r0\<lparr>r_status := RESOLVED, r_moderatorId := Some (rq_moderatorId req),
                                r_moderatorComment := map_option trim (rq_comment req),
                                r_resolvedAt := Some (now (scanning e))\<rparr>"
    have k: "r_id r0 = rq_reportId req"
      using f find_key [of r_id "rq_reportId req" "reports w" r0] by simp
    have f1: "find (\<lambda>r. r_id r = rq_reportId req) (reports ?w1) = Some ?r'"
      using s k find_saveById [of r_id "rq_reportId req" "reports w" r0 ?r', OF f] by simp
    have y: "rq_reportId req' = rq_reportId req \<Longrightarrow> resolveModerationAction e' req' ?w1 =
             (if \<not> isObjectId (rq_reportId req') then (Inl (CastError (rq_reportId req')), ?w1)
              else if fails e' ReportFind then (Inl (DbError 0), ?w1)
              else (Inl (AppError ''Report already resolved'' 400 ''ALREADY_RESOLVED''), ?w1))"
      using f1 by (intro resolve_already_resolved [of req' ?w1 ?r']) simp_all
    show ?thesis using f f1 l y by simp
  qed
  have c5: "find (\<lambda>r. r_id r = rq_reportId req) (reports w) = Some r \<and> r_status r \<noteq> RESOLVED \<and>
    isObjectId (rq_reportId req) \<and>
    (rq_action req = ''dismiss'' \<or> rq_action req = ''remove'' \<or>
     rq_action req = ''banUser'' \<or> rq_action req = ''suspendChannel'') \<and>
    (\<forall>opn. \<not> fails e opn) \<and>
    (rq_action req = ''banUser'' \<and> (r_targetType r = MESSAGE \<or> r_targetType r = USER) \<longrightarrow>
       isObjectId (r_targetId r)) \<longrightarrow>
      (\<exists>resp. fst (resolveModerationAction e req w) = Inr resp) \<and>
      find (\<lambda>r. r_id r = rq_reportId req) (reports (snd (resolveModerationAction e req w))) =
        Some (r\<lparr>r_status := RESOLVED, r_moderatorId := Some (rq_moderatorId req),
                 r_moderatorComment := map_option trim (rq_comment req),
                 r_resolvedAt := Some (now (scanning e))\<rparr>) \<and>
      length (auditLog (snd (resolveModerationAction e req w))) = length (auditLog w) + 1 \<and>
      (rq_reportId req' = rq_reportId req \<longrightarrow>
         snd (resolveModerationAction e' req' (snd (resolveModerationAction e req w))) =
           snd (resolveModerationAction e req w) \<and>
         (\<exists>err. fst (resolveModerationAction e' req' (snd (resolveModerationAction e req w))) =
                  Inl err))"
  proof (intro impI)
    assume a: "find (\<lambda>r. r_id r = rq_reportId req) (reports w) = Some r \<and> r_status r \<noteq> RESOLVED \<and>
      isObjectId (rq_reportId req) \<and>
      (rq_action req = ''dismiss'' \<or> rq_action req = ''remove'' \<or>
       rq_action req = ''banUser'' \<or> rq_action req = ''suspendChannel'') \<and>
      (\<forall>opn. \<not> fails e opn) \<and>
      (rq_action req = ''banUser'' \<and> (r_targetType r = MESSAGE \<or> r_targetType r = USER) \<longrightarrow>
         isObjectId (r_targetId r))"
    then obtain resp0 where ok: "fst (resolveModerationAction e req w) = Inr resp0"
      using resolve_first_call [of req w r e] by blast
    show "(\<exists>resp. fst (resolveModerationAction e req w) = Inr resp) \<and>
      find (\<lambda>r. r_id r = rq_reportId req) (reports (snd (resolveModerationAction e req w))) =
        Some (r\<lparr>r_status := RESOLVED, r_moderatorId := Some (rq_moderatorId req),
                 r_moderatorComment := map_option trim (rq_comment req),
                 r_resolvedAt := Some (now (scanning e))\<rparr>) \<and>
      length (auditLog (snd (resolveModerationAction e req w))) = length (auditLog w) + 1 \<and>
      (rq_reportId req' = rq_reportId req \<longrightarrow>
         snd (resolveModerationAction e' req' (snd (resolveModerationAction e req w))) =
           snd (resolveModerationAction e req w) \<and>
         (\<exists>err. fst (resolveModerationAction e' req' (snd (resolveModerationAction e req w))) =
                  Inl err))"
      using c4 [OF ok] ok a by auto
  qed
  have c4': "fst (resolveModerationAction e req w) = Inr resp \<longrightarrow>
      (\<exists>r'. find (\<lambda>r. r_id r = rq_reportId req) (reports (snd (resolveModerationAction e req w))) =
              Some r' \<and>
            r_status r' = RESOLVED \<and> r_resolvedAt r' = Some (now (scanning e))) \<and>
      length (auditLog (snd (resolveModerationAction e req w))) = length (auditLog w) + 1 \<and>
      (rq_reportId req' = rq_reportId req \<longrightarrow>
         snd (resolveModerationAction e' req' (snd (resolveModerationAction e req w))) =
           snd (resolveModerationAction e req w) \<and>
         (\<exists>err. fst (resolveModerationAction e' req' (snd (resolveModerationAction e req w))) =
                  Inl err))"
    using c4 [of resp] by auto
  show ?thesis
    by (rule conjI [OF c1 conjI [OF c2 conjI [OF c3 conjI [OF c4' c5]]]])
qed

theorem resolution_exactly_once_witness:
  "find (\<lambda>r. r_id r = rq_reportId dismissRequest) (reports closedWorld) = Some closedReport \<and>
   r_status closedReport = RESOLVED \<and> isObjectId (rq_reportId dismissRequest) \<and>
   \<not> fails laterEnv ReportFind \<and>
   resolveModerationAction laterEnv dismissRequest closedWorld =
     (Inl (AppError ''Report already resolved'' 400 ''ALREADY_RESOLVED''), closedWorld) \<and>
   find (\<lambda>q. q_id q = ''64b7f0c2a1d3e4f5a6b7c8e1'') (moderationQueue closedWorld) = Some doneItem \<and>
   q_processed doneItem \<and> isObjectId ''64b7f0c2a1d3e4f5a6b7c8e1'' \<and> \<not> fails laterEnv QueueFind \<and>
   processQueueItem laterEnv ''64b7f0c2a1d3e4f5a6b7c8e1'' ''64b7f0c2a1d3e4f5a6b7c8f2'' closedWorld =
     (Inl (AppError ''Queue item already processed'' 400 ''ALREADY_PROCESSED''), closedWorld) \<and>
   find (\<lambda>q. q_id q = ''64b7f0c2a1d3e4f5a6b7c8e1'') (moderationQueue reportedWorld) =
     Some pendingItem \<and>
   \<not> q_processed pendingItem \<and> \<not> fails okEnv QueueFind \<and> \<not> fails okEnv QueueSave \<and>
   \<not> fails okEnv AuditCreate \<and>
   fst (processQueueItem okEnv ''64b7f0c2a1d3e4f5a6b7c8e1'' ''64b7f0c2a1d3e4f5a6b7c8f2''
          reportedWorld) = Inr () \<and>
   find (\<lambda>q. q_id q = ''64b7f0c2a1d3e4f5a6b7c8e1'')
     (moderationQueue (snd (processQueueItem okEnv ''64b7f0c2a1d3e4f5a6b7c8e1''
                              ''64b7f0c2a1d3e4f5a6b7c8f2'' reportedWorld))) = Some doneItem \<and>
   snd (processQueueItem laterEnv ''64b7f0c2a1d3e4f5a6b7c8e1'' ''64b7f0c2a1d3e4f5a6b7c8f2''
          (snd (processQueueItem okEnv ''64b7f0c2a1d3e4f5a6b7c8e1'' ''64b7f0c2a1d3e4f5a6b7c8f2''
                  reportedWorld))) =
     snd (processQueueItem okEnv ''64b7f0c2a1d3e4f5a6b7c8e1'' ''64b7f0c2a1d3e4f5a6b7c8f2''
            reportedWorld) \<and>
   find (\<lambda>r. r_id r = rq_reportId dismissRequest) (reports reportedWorld) = Some openReport \<and>
   r_status openReport \<noteq> RESOLVED \<and> rq_action dismissRequest = ''dismiss'' \<and>
   (\<forall>opn. \<not> fails okEnv opn) \<and>
   fst (resolveModerationAction okEnv dismissRequest reportedWorld) = Inr dismissResponse \<and>
   find (\<lambda>r. r_id r = rq_reportId dismissRequest)
     (reports (snd (resolveModerationAction okEnv dismissRequest reportedWorld))) =
     Some closedReport \<and>
   length (auditLog (snd (resolveModerationAction okEnv dismissRequest reportedWorld))) =
     length (auditLog reportedWorld) + 1 \<and>
   snd (resolveModerationAction laterEnv banRequest
          (snd (resolveModerationAction okEnv dismissRequest reportedWorld))) =
     snd (resolveModerationAction okEnv dismissRequest reportedWorld)"
proof -
  have h1: "find (\<lambda>r. r_id r = rq_reportId dismissRequest) (reports closedWorld) = Some closedReport \<and>
   r_status closedReport = RESOLVED \<and> \<not> fails laterEnv ReportFind"
    by (simp add: dismissRequest_def banRequest_def closedWorld_def closedReport_def openReport_def
          laterEnv_def okEnv_def noFaults_def)
  have o1: "isObjectId (rq_reportId dismissRequest)" by code_simp
  have o2: "isObjectId ''64b7f0c2a1d3e4f5a6b7c8e1''" by code_simp
  have h2: "find (\<lambda>q. q_id q = ''64b7f0c2a1d3e4f5a6b7c8e1'') (moderationQueue closedWorld) =
     Some doneItem \<and> q_processed doneItem \<and> \<not> fails laterEnv QueueFind"
    by (simp add: closedWorld_def doneItem_def pendingItem_def laterEnv_def okEnv_def noFaults_def)
  have h3: "find (\<lambda>q. q_id q = ''64b7f0c2a1d3e4f5a6b7c8e1'') (moderationQueue reportedWorld) =
     Some pendingItem \<and>
   \<not> q_processed pendingItem \<and> \<not> fails okEnv QueueFind \<and> \<not> fails okEnv QueueSave \<and>
   \<not> fails okEnv AuditCreate"
    by (simp add: reportedWorld_def pendingItem_def okEnv_def noFaults_def)
  have h4: "find (\<lambda>r. r_id r = rq_reportId dismissRequest) (reports reportedWorld) = Some openReport \<and>
   r_status openReport \<noteq> RESOLVED \<and> rq_action dismissRequest = ''dismiss'' \<and>
   (\<forall>opn. \<not> fails okEnv opn)"
    by (simp add: dismissRequest_def banRequest_def reportedWorld_def openReport_def okEnv_def
          noFaults_def)
  have h5: "fst (resolveModerationAction okEnv dismissRequest reportedWorld) = Inr dismissResponse"
    by code_simp
  have h6: "rq_reportId banRequest = rq_reportId dismissRequest"
    by (simp add: dismissRequest_def)
  have h7: "rq_action dismissRequest \<noteq> ''banUser''"
    by (simp add: dismissRequest_def)
  have d: "pendingItem\<lparr>q_processed := True, q_processedAt := Some (now (scanning okEnv))\<rparr> = doneItem"
    by (simp add: doneItem_def okEnv_def scanEnvAt_def)
  have d': "openReport\<lparr>r_status := RESOLVED, r_moderatorId := Some (rq_moderatorId dismissRequest),
                 r_moderatorComment := map_option trim (rq_comment dismissRequest),
                 r_resolvedAt := Some (now (scanning okEnv))\<rparr> = closedReport"
    by code_simp
  note t1 = resolution_exactly_once
    [where req = dismissRequest and w = closedWorld and r = closedReport and e = laterEnv
       and ident = "''64b7f0c2a1d3e4f5a6b7c8e1''" and q = doneItem
       and moderatorId = "''64b7f0c2a1d3e4f5a6b7c8f2''"]
  note t2 = resolution_exactly_once
    [where req = dismissRequest and w = reportedWorld and r = openReport and e = okEnv
       and ident = "''64b7f0c2a1d3e4f5a6b7c8e1''" and q = pendingItem
       and moderatorId = "''64b7f0c2a1d3e4f5a6b7c8f2''" and e' = laterEnv
       and moderatorId' = "''64b7f0c2a1d3e4f5a6b7c8f2''" and resp = dismissResponse
       and req' = banRequest]
  note t1a = t1 [THEN conjunct1]
  note t1b = t1 [THEN conjunct2, THEN conjunct1]
  note t2c = t2 [THEN conjunct2, THEN conjunct2, THEN conjunct1]
  note t2e = t2 [THEN conjunct2, THEN conjunct2, THEN conjunct2, THEN conjunct2]
  have a0: "snd (resolveModerationAction laterEnv dismissRequest closedWorld) = closedWorld \<and>
     fst (resolveModerationAction laterEnv dismissRequest closedWorld) =
       Inl (AppError ''Report already resolved'' 400 ''ALREADY_RESOLVED'')"
    using t1a h1 o1 by blast
  have a: "resolveModerationAction laterEnv dismissRequest closedWorld =
     (Inl (AppError ''Report already resolved'' 400 ''ALREADY_RESOLVED''), closedWorld)"
    using a0 by (simp add: prod_eq_iff)
  have b0: "snd (processQueueItem laterEnv ''64b7f0c2a1d3e4f5a6b7c8e1'' ''64b7f0c2a1d3e4f5a6b7c8f2''
             closedWorld) = closedWorld \<and>
     fst (processQueueItem laterEnv ''64b7f0c2a1d3e4f5a6b7c8e1'' ''64b7f0c2a1d3e4f5a6b7c8f2''
             closedWorld) =
       Inl (AppError ''Queue item already processed'' 400 ''ALREADY_PROCESSED'')"
    using t1b h2 o2 by blast
  have b: "processQueueItem laterEnv ''64b7f0c2a1d3e4f5a6b7c8e1'' ''64b7f0c2a1d3e4f5a6b7c8f2''
             closedWorld =
     (Inl (AppError ''Queue item already processed'' 400 ''ALREADY_PROCESSED''), closedWorld)"
    using b0 by (simp add: prod_eq_iff)
  have c: "fst (processQueueItem okEnv ''64b7f0c2a1d3e4f5a6b7c8e1'' ''64b7f0c2a1d3e4f5a6b7c8f2''
          reportedWorld) = Inr () \<and>
   find (\<lambda>q. q_id q = ''64b7f0c2a1d3e4f5a6b7c8e1'')
     (moderationQueue (snd (processQueueItem okEnv ''64b7f0c2a1d3e4f5a6b7c8e1''
                              ''64b7f0c2a1d3e4f5a6b7c8f2'' reportedWorld))) = Some doneItem \<and>
   snd (processQueueItem laterEnv ''64b7f0c2a1d3e4f5a6b7c8e1'' ''64b7f0c2a1d3e4f5a6b7c8f2''
          (snd (processQueueItem okEnv ''64b7f0c2a1d3e4f5a6b7c8e1'' ''64b7f0c2a1d3e4f5a6b7c8f2''
                  reportedWorld))) =
     snd (processQueueItem okEnv ''64b7f0c2a1d3e4f5a6b7c8e1'' ''64b7f0c2a1d3e4f5a6b7c8f2''
            reportedWorld)"
    using t2c [unfolded d] h3 o2 by blast
  have e: "find (\<lambda>r. r_id r = rq_reportId dismissRequest)
     (reports (snd (resolveModerationAction okEnv dismissRequest reportedWorld))) =
     Some closedReport \<and>
   length (auditLog (snd (resolveModerationAction okEnv dismissRequest reportedWorld))) =
     length (auditLog reportedWorld) + 1 \<and>
   snd (resolveModerationAction laterEnv banRequest
          (snd (resolveModerationAction okEnv dismissRequest reportedWorld))) =
     snd (resolveModerationAction okEnv dismissRequest reportedWorld)"
    using t2e [unfolded d'] h4 o1 h6 h7 by blast
  show ?thesis using h1 o1 o2 h2 h3 h4 h5 a b c e by blast
qed

text \<open>
  C10, as the specification words it, does not hold: a message id such as \<open>msg-1\<close> is
  not a well-formed ObjectId, so the user lookup throws before it can find nobody. No
  user has that id and no operation fails, and yet the resolution fails with the cast
  error: the report keeps its status without a resolution time and no audit record is
  written.
\<close>

theorem ban_on_message_id_cast_counterexample:
  "reports reportedWorld = [openReport] \<and> r_id openReport = rq_reportId banRequest \<and>
   r_targetType openReport = MESSAGE \<and> r_targetId openReport = ''msg-1'' \<and>
   r_status openReport = UNDER_REVIEW \<and> r_resolvedAt openReport = None \<and>
   rq_action banRequest = ''banUser'' \<and>
   map u_id (users reportedWorld) = [''64b7f0c2a1d3e4f5a6b7c8a3''] \<and>
   \<not> fails okEnv ReportFind \<and> \<not> fails okEnv UserFind \<and> \<not> fails okEnv UserSave \<and>
   \<not> fails okEnv ReportSave \<and> \<not> fails okEnv AuditCreate \<and>
   \<not> isObjectId ''msg-1'' \<and>
   fst (resolveModerationAction okEnv banRequest reportedWorld) = Inl (CastError ''msg-1'') \<and>
   reports (snd (resolveModerationAction okEnv banRequest reportedWorld)) = [openReport] \<and>
   auditLog (snd (resolveModerationAction okEnv banRequest reportedWorld)) = auditLog reportedWorld \<and>
   users (snd (resolveModerationAction okEnv banRequest reportedWorld)) = users reportedWorld \<and>
   calls (snd (resolveModerationAction okEnv banRequest reportedWorld)) = calls reportedWorld"
  by code_simp

text \<open>
  C10, amended. A \<open>banUser\<close> resolution of a report on a message looks the user up under
  the report's \<open>targetId\<close>, the message id. When that id is not a well-formed ObjectId
  the lookup throws: the call fails with the cast error and changes nothing. When no
  user has that id, no user is changed and no provider call is made; and if the id is
  well formed (the lookups and the report and audit writes succeeding) the report
  becomes RESOLVED with the time of the call, the audit record \<open>moderation_resolved\<close> is
  appended with details that mention no ban, and the response is the successful one.
  When a user does have that id, it is that user who is banned, locally and at the
  provider.
\<close>

theorem ban_on_message_report_uses_target_id:
  "find (\<lambda>r. r_id r = rq_reportId req) (reports w) = Some r \<and> r_status r \<noteq> RESOLVED \<and>
   r_targetType r = MESSAGE \<and> rq_action req = ''banUser'' \<longrightarrow>
     (isObjectId (rq_reportId req) \<and> \<not> fails e ReportFind \<and> \<not> isObjectId (r_targetId r) \<longrightarrow>
        resolveModerationAction e req w = (Inl (CastError (r_targetId r)), w)) \<and>
     (find (\<lambda>u. u_id u = r_targetId r) (users w) = None \<longrightarrow>
        users (snd (resolveModerationAction e req w)) = users w \<and>
        calls (snd (resolveModerationAction e req w)) = calls w \<and>
        (isObjectId (rq_reportId req) \<and> isObjectId (r_targetId r) \<and>
         \<not> fails e ReportFind \<and> \<not> fails e UserFind \<and>
         \<not> fails e ReportSave \<and> \<not> fails e AuditCreate \<longrightarrow>
           fst (resolveModerationAction e req w) =
             Inr \<lparr>rs_status = 200, rs_reportId = r_id r, rs_action = ''banUser'',
                  rs_reportStatus = RESOLVED,
                  rs_details = \<lparr>d_action = ''banUser'', d_comment = rq_comment req,
                                 d_messageDeleted = None, d_streamBanned = None,
                                 d_bannedUntil = None, d_channelSuspended = None\<rparr>\<rparr> \<and>
           find (\<lambda>r. r_id r = rq_reportId req) (reports (snd (resolveModerationAction e req w))) =
             Some (r\<lparr>r_status := RESOLVED, r_moderatorId := Some (rq_moderatorId req),
                      r_moderatorComment := map_option trim (rq_comment req),
                      r_resolvedAt := Some (now (scanning e))\<rparr>) \<and>
           auditLog (snd (resolveModerationAction e req w)) =
             auditLog w @
               [\<lparr>a_action = ''moderation_resolved'', a_actorUserId = Some (rq_moderatorId req),
                 a_target = ''message:'' @ r_targetId r, a_timestamp = now (scanning e),
                 a_meta = ResolvedMeta (r_id r) ''banUser''
                            \<lparr>d_action = ''banUser'', d_comment = rq_comment req,
                             d_messageDeleted = None, d_streamBanned = None,
                             d_bannedUntil = None, d_channelSuspended = None\<rparr>\<rparr>])) \<and>
     (find (\<lambda>u. u_id u = r_targetId r) (users w) = Some usr \<and>
      isObjectId (rq_reportId req) \<and> isObjectId (r_targetId r) \<and>
      \<not> fails e ReportFind \<and> \<not> fails e UserFind \<and> \<not> fails e UserSave \<longrightarrow>
        (\<exists>b. find (\<lambda>u. u_id u = r_targetId r) (users (snd (resolveModerationAction e req w))) =
               Some (usr\<lparr>u_bannedUntil := Some b\<rparr>)) \<and>
        (\<exists>t reason. calls (snd (resolveModerationAction e req w)) =
               calls w @ [BanUser (r_targetId r) t reason (rq_moderatorId req)]))"
proof (intro impI conjI)
  assume a: "find (\<lambda>r. r_id r = rq_reportId req) (reports w) = Some r \<and> r_status r \<noteq> RESOLVED \<and>
   r_targetType r = MESSAGE \<and> rq_action req = ''banUser''"
  have k: "r_id r = rq_reportId req"
    using a find_key [of r_id "rq_reportId req" "reports w" r] by simp
  {
    assume "isObjectId (rq_reportId req) \<and> \<not> fails e ReportFind \<and> \<not> isObjectId (r_targetId r)"
    then show "resolveModerationAction e req w = (Inl (CastError (r_targetId r)), w)"
      using a by (simp add: resolve_defs Let_def)
  }
  {
    assume n: "find (\<lambda>u. u_id u = r_targetId r) (users w) = None"
    show "users (snd (resolveModerationAction e req w)) = users w"
      using a n by (simp add: resolve_defs Let_def)
    show "calls (snd (resolveModerationAction e req w)) = calls w"
      using a n by (simp add: resolve_defs Let_def)
    assume ok: "isObjectId (rq_reportId req) \<and> isObjectId (r_targetId r) \<and>
         \<not> fails e ReportFind \<and> \<not> fails e UserFind \<and>
         \<not> fails e ReportSave \<and> \<not> fails e AuditCreate"
    show "fst (resolveModerationAction e req w) =
             Inr \<lparr>rs_status = 200, rs_reportId = r_id r, rs_action = ''banUser'',
                  rs_reportStatus = RESOLVED,
                  rs_details = \<lparr>d_action = ''banUser'', d_comment = rq_comment req,
                                 d_messageDeleted = None, d_streamBanned = None,
                                 d_bannedUntil = None, d_channelSuspended = None\<rparr>\<rparr>"
      using a n ok by (simp add: resolve_defs Let_def)
    have "reports (snd (resolveModerationAction e req w)) =
            saveById r_id (r\<lparr>r_status := RESOLVED, r_moderatorId := Some (rq_moderatorId req),
                      r_moderatorComment := map_option trim (rq_comment req),
                      r_resolvedAt := Some (now (scanning e))\<rparr>) (reports w)"
      using a n ok by (simp add: resolve_defs Let_def)
    then show "find (\<lambda>r. r_id r = rq_reportId req) (reports (snd (resolveModerationAction e req w))) =
             Some (r\<lparr>r_status := RESOLVED, r_moderatorId := Some (rq_moderatorId req),
                      r_moderatorComment := map_option trim (rq_comment req),
                      r_resolvedAt := Some (now (scanning e))\<rparr>)"
      using a k find_saveById [of r_id "rq_reportId req" "reports w" r] by simp
    show "auditLog (snd (resolveModerationAction e req w)) =
             auditLog w @
               [\<lparr>a_action = ''moderation_resolved'', a_actorUserId = Some (rq_moderatorId req),
                 a_target = ''message:'' @ r_targetId r, a_timestamp = now (scanning e),
                 a_meta = ResolvedMeta (r_id r) ''banUser''
                            \<lparr>d_action = ''banUser'', d_comment = rq_comment req,
                             d_messageDeleted = None, d_streamBanned = None,
                             d_bannedUntil = None, d_channelSuspended = None\<rparr>\<rparr>]"
      using a n ok by (simp add: resolve_defs Let_def)
  }
  {
    assume u: "find (\<lambda>u. u_id u = r_targetId r) (users w) = Some usr \<and>
      isObjectId (rq_reportId req) \<and> isObjectId (r_targetId r) \<and>
      \<not> fails e ReportFind \<and> \<not> fails e UserFind \<and> \<not> fails e UserSave"
    have ku: "u_id usr = r_targetId r"
      using u find_key [of u_id "r_targetId r" "users w" usr] by simp
    have "\<exists>b. users (snd (resolveModerationAction e req w)) =
                saveById u_id (usr\<lparr>u_bannedUntil := Some b\<rparr>) (users w)"
      using a u by (auto simp: resolve_defs Let_def)
    then show "\<exists>b. find (\<lambda>u. u_id u = r_targetId r) (users (snd (resolveModerationAction e req w))) =
               Some (usr\<lparr>u_bannedUntil := Some b\<rparr>)"
      using u ku find_saveById [of u_id "r_targetId r" "users w" usr] by auto
    show "\<exists>t reason. calls (snd (resolveModerationAction e req w)) =
               calls w @ [BanUser (r_targetId r) t reason (rq_moderatorId req)]"
      using a u by (auto simp: resolve_defs Let_def)
  }
qed


theorem ban_on_message_report_uses_target_id_witness:
  "find (\<lambda>r. r_id r = rq_reportId banRequest) (reports hexIdWorld) = Some hexReport \<and>
   r_status hexReport \<noteq> RESOLVED \<and> r_targetType hexReport = MESSAGE \<and>
   rq_action banRequest = ''banUser'' \<and>
   find (\<lambda>u. u_id u = r_targetId hexReport) (users hexIdWorld) = None \<and>
   isObjectId (rq_reportId banRequest) \<and> isObjectId (r_targetId hexReport) \<and>
   \<not> fails okEnv ReportFind \<and> \<not> fails okEnv UserFind \<and>
   \<not> fails okEnv ReportSave \<and> \<not> fails okEnv AuditCreate \<and>
   users (snd (resolveModerationAction okEnv banRequest hexIdWorld)) = users hexIdWorld \<and>
   calls (snd (resolveModerationAction okEnv banRequest hexIdWorld)) = calls hexIdWorld \<and>
   fst (resolveModerationAction okEnv banRequest hexIdWorld) = Inr banResponse \<and>
   find (\<lambda>r. r_id r = rq_reportId banRequest)
     (reports (snd (resolveModerationAction okEnv banRequest hexIdWorld))) = Some closedHexReport \<and>
   find (\<lambda>r. r_id r = rq_reportId banRequest) (reports reportedWorld) = Some openReport \<and>
   r_status openReport \<noteq> RESOLVED \<and> r_targetType openReport = MESSAGE \<and>
   \<not> isObjectId (r_targetId openReport) \<and>
   resolveModerationAction okEnv banRequest reportedWorld =
     (Inl (CastError ''msg-1''), reportedWorld) \<and>
   find (\<lambda>r. r_id r = rq_reportId banRequest) (reports userIdWorld) = Some userReport \<and>
   r_status userReport \<noteq> RESOLVED \<and> r_targetType userReport = MESSAGE \<and>
   isObjectId (r_targetId userReport) \<and>
   find (\<lambda>u. u_id u = r_targetId userReport) (users userIdWorld) =
     Some \<lparr>u_id = ''64b7f0c2a1d3e4f5a6b7c8a3'', u_bannedUntil = None\<rparr> \<and>
   \<not> fails okEnv UserSave \<and>
   (\<exists>b. find (\<lambda>u. u_id u = r_targetId userReport)
          (users (snd (resolveModerationAction okEnv banRequest userIdWorld))) =
        Some \<lparr>u_id = ''64b7f0c2a1d3e4f5a6b7c8a3'', u_bannedUntil = Some b\<rparr>) \<and>
   (\<exists>t reason. calls (snd (resolveModerationAction okEnv banRequest userIdWorld)) =
        calls userIdWorld @
          [BanUser (r_targetId userReport) t reason (rq_moderatorId banRequest)]) \<and>
   map u_bannedUntil (users (snd (resolveModerationAction okEnv banRequest userIdWorld))) =
     [Some (HoursAfter 1000 24)]"
proof -
  have h1: "find (\<lambda>r. r_id r = rq_reportId banRequest) (reports hexIdWorld) = Some hexReport \<and>
   r_status hexReport \<noteq> RESOLVED \<and> r_targetType hexReport = MESSAGE \<and>
   rq_action banRequest = ''banUser''"
    by (simp add: banRequest_def hexIdWorld_def hexReport_def openReport_def)
  have h2: "find (\<lambda>u. u_id u = r_targetId hexReport) (users hexIdWorld) = None"
    by (simp add: hexIdWorld_def reportedWorld_def recordedWorld_def seededWorld_def hexReport_def
          openReport_def)
  have o1: "isObjectId (rq_reportId banRequest)" by code_simp
  have o2: "isObjectId (r_targetId hexReport)" by code_simp
  have o3: "\<not> isObjectId (r_targetId openReport)" by code_simp
  have o4: "isObjectId (r_targetId userReport)" by code_simp
  have nf: "\<not> fails okEnv ReportFind \<and> \<not> fails okEnv UserFind \<and>
   \<not> fails okEnv ReportSave \<and> \<not> fails okEnv AuditCreate \<and> \<not> fails okEnv UserSave"
    by (simp add: okEnv_def noFaults_def)
  have h3: "find (\<lambda>r. r_id r = rq_reportId banRequest) (reports reportedWorld) = Some openReport \<and>
   r_status openReport \<noteq> RESOLVED \<and> r_targetType openReport = MESSAGE \<and>
   rq_action banRequest = ''banUser''"
    by (simp add: banRequest_def reportedWorld_def openReport_def)
  have h4: "find (\<lambda>r. r_id r = rq_reportId banRequest) (reports userIdWorld) = Some userReport \<and>
   r_status userReport \<noteq> RESOLVED \<and> r_targetType userReport = MESSAGE \<and>
   rq_action banRequest = ''banUser''"
    by (simp add: banRequest_def userIdWorld_def userReport_def openReport_def)
  have h5: "find (\<lambda>u. u_id u = r_targetId userReport) (users userIdWorld) =
     Some \<lparr>u_id = ''64b7f0c2a1d3e4f5a6b7c8a3'', u_bannedUntil = None\<rparr>"
    by (simp add: userIdWorld_def reportedWorld_def recordedWorld_def seededWorld_def userReport_def
          openReport_def)
  have r1: "\<lparr>rs_status = 200, rs_reportId = r_id hexReport, rs_action = ''banUser'',
                  rs_reportStatus = RESOLVED,
                  rs_details = \<lparr>d_action = ''banUser'', d_comment = rq_comment banRequest,
                                 d_messageDeleted = None, d_streamBanned = None,
                                 d_bannedUntil = None, d_channelSuspended = None\<rparr>\<rparr> = banResponse"
    by (simp add: banResponse_def banDetails_def hexReport_def openReport_def banRequest_def)
  have r2: "hexReport\<lparr>r_status := RESOLVED, r_moderatorId := Some (rq_moderatorId banRequest),
                      r_moderatorComment := map_option trim (rq_comment banRequest),
                      r_resolvedAt := Some (now (scanning okEnv))\<rparr> = closedHexReport"
    by code_simp
  have r3: "r_targetId openReport = ''msg-1''" by (simp add: openReport_def)
  have r4: "\<lparr>u_id = ''64b7f0c2a1d3e4f5a6b7c8a3'', u_bannedUntil = None\<rparr>
              \<lparr>u_bannedUntil := Some b\<rparr> =
            \<lparr>u_id = ''64b7f0c2a1d3e4f5a6b7c8a3'', u_bannedUntil = Some b\<rparr>" for b
    by simp
  note t1 = ban_on_message_report_uses_target_id
              [where req = banRequest and w = hexIdWorld and r = hexReport and e = okEnv]
  note t2 = ban_on_message_report_uses_target_id
              [where req = banRequest and w = reportedWorld and r = openReport and e = okEnv]
  note t3 = ban_on_message_report_uses_target_id
              [where req = banRequest and w = userIdWorld and r = userReport and e = okEnv
                 and usr = "\<lparr>u_id = ''64b7f0c2a1d3e4f5a6b7c8a3'', u_bannedUntil = None\<rparr>"]
  have a: "users (snd (resolveModerationAction okEnv banRequest hexIdWorld)) = users hexIdWorld \<and>
   calls (snd (resolveModerationAction okEnv banRequest hexIdWorld)) = calls hexIdWorld \<and>
   fst (resolveModerationAction okEnv banRequest hexIdWorld) = Inr banResponse \<and>
   find (\<lambda>r. r_id r = rq_reportId banRequest)
     (reports (snd (resolveModerationAction okEnv banRequest hexIdWorld))) = Some closedHexReport"
    using t1 [unfolded r1 r2] h1 h2 o1 o2 nf by blast
  have b: "resolveModerationAction okEnv banRequest reportedWorld =
     (Inl (CastError ''msg-1''), reportedWorld)"
    using t2 [unfolded r3] h3 o1 o3 [unfolded r3] nf by blast
  have c: "(\<exists>b. find (\<lambda>u. u_id u = r_targetId userReport)
          (users (snd (resolveModerationAction okEnv banRequest userIdWorld))) =
        Some \<lparr>u_id = ''64b7f0c2a1d3e4f5a6b7c8a3'', u_bannedUntil = Some b\<rparr>) \<and>
   (\<exists>t reason. calls (snd (resolveModerationAction okEnv banRequest userIdWorld)) =
        calls userIdWorld @
          [BanUser (r_targetId userReport) t reason (rq_moderatorId banRequest)])"
    using t3 [unfolded r4] h4 h5 o1 o4 nf by blast
  have d: "map u_bannedUntil (users (snd (resolveModerationAction okEnv banRequest userIdWorld))) =
     [Some (HoursAfter 1000 24)]"
    by code_simp
  show ?thesis using h1 h2 o1 o2 o3 o4 nf h3 h4 h5 a b c d by blast
qed

end
